(* ===== verification/Prelude.thy ===== *)
theory Prelude
  imports Main "HOL-Library.Word" "HOL-Library.Sublist"
begin

text \<open>
  Shared vocabulary of the development: the Python primitives the router
  \<^verbatim>\<open>backend/open_webui/routers/videos.py\<close> relies on (string prefix tests,
  \<^verbatim>\<open>str.split\<close>, \<^verbatim>\<open>str.lstrip\<close>, insertion-ordered dictionaries, \<^verbatim>\<open>str(int)\<close>),
  written as executable HOL functions, with the generic lemmas on lists and
  association lists that the component theories use. Python strings are
  \<^typ>\<open>string\<close> (one \<^typ>\<open>char\<close> per code unit), bytes are \<^typ>\<open>8 word\<close>.
\<close>

named_theorems py_simps "evaluation rules of the Python primitives"
named_theorems handler_defs "definitions of the request handlers, unfolded in their behaviour lemmas"

type_synonym byte = "8 word"

text \<open>A Python dict with insertion order, as an association list with unique keys.\<close>
type_synonym ('k, 'v) pydict = "('k \<times> 'v) list"

type_synonym headers = "(string, string) pydict"

subsection \<open>Strings\<close>

text \<open>\<^verbatim>\<open>s.startswith(p)\<close>.\<close>
definition py_startswith :: "string \<Rightarrow> string \<Rightarrow> bool" where
  "py_startswith s p \<longleftrightarrow> take (length p) s = p"

text \<open>\<^verbatim>\<open>s.split(c)\<close> for a one-character separator: never empty, \<^verbatim>\<open>''.split(',') == ['']\<close>.\<close>
fun py_split :: "char \<Rightarrow> string \<Rightarrow> string list" where
  "py_split c [] = [[]]"
| "py_split c (x # xs) =
     (if x = c then [] # py_split c xs
      else (case py_split c xs of w # ws \<Rightarrow> (x # w) # ws | [] \<Rightarrow> [[x]]))"

text \<open>\<^verbatim>\<open>s.split(c, 1)\<close>: at most one split, at the first separator.\<close>
definition py_split_max1 :: "char \<Rightarrow> string \<Rightarrow> string list" where
  "py_split_max1 c s =
     (if c \<in> set s then [takeWhile (\<lambda>x. x \<noteq> c) s, tl (dropWhile (\<lambda>x. x \<noteq> c) s)] else [s])"

text \<open>\<^verbatim>\<open>s.lstrip(cs)\<close>: removes leading characters that belong to the SET \<open>cs\<close>.\<close>
definition py_lstrip :: "string \<Rightarrow> string \<Rightarrow> string" where
  "py_lstrip cs s = dropWhile (\<lambda>x. x \<in> set cs) s"

text \<open>\<^verbatim>\<open>sep.join(xs)\<close>.\<close>
fun py_join :: "string \<Rightarrow> string list \<Rightarrow> string" where
  "py_join sep [] = []"
| "py_join sep [x] = x"
| "py_join sep (x # y # zs) = x @ sep @ py_join sep (y # zs)"

text \<open>\<^verbatim>\<open>str(n)\<close> for integers: decimal digits, a leading minus sign.\<close>
fun nat_str :: "nat \<Rightarrow> string" where
  "nat_str n = (if n < 10 then [''0123456789'' ! n]
                else nat_str (n div 10) @ [''0123456789'' ! (n mod 10)])"

declare nat_str.simps [simp del]

definition int_str :: "int \<Rightarrow> string" where
  "int_str i = (if i < 0 then CHR ''-'' # nat_str (nat (- i)) else nat_str (nat i))"

subsection \<open>Insertion-ordered dictionaries\<close>

text \<open>\<^verbatim>\<open>d[k] = v\<close>: overwrites in place when the key exists, appends otherwise.\<close>
definition dict_set :: "'k \<Rightarrow> 'v \<Rightarrow> ('k, 'v) pydict \<Rightarrow> ('k, 'v) pydict" where
  "dict_set k v d =
     (if k \<in> fst ` set d then map (\<lambda>(k', v'). if k' = k then (k', v) else (k', v')) d
      else d @ [(k, v)])"

text \<open>\<^verbatim>\<open>del d[k]\<close>: \<open>None\<close> is the \<^verbatim>\<open>KeyError\<close> of an absent key.\<close>
definition dict_del :: "'k \<Rightarrow> ('k, 'v) pydict \<Rightarrow> ('k, 'v) pydict option" where
  "dict_del k d = (if k \<in> fst ` set d then Some (filter (\<lambda>p. fst p \<noteq> k) d) else None)"

text \<open>\<^verbatim>\<open>dict(pairs)\<close> and \<^verbatim>\<open>json.loads\<close> objects: later duplicates overwrite earlier ones.\<close>
definition dict_of_pairs :: "('k \<times> 'v) list \<Rightarrow> ('k, 'v) pydict" where
  "dict_of_pairs kvs = foldl (\<lambda>d (k, v). dict_set k v d) [] kvs"

subsection \<open>Generic lemmas\<close>

lemma py_startswith_append [simp, py_simps]: "py_startswith (p @ r) p"
  by (simp add: py_startswith_def)

lemma py_startswith_Nil [simp, py_simps]: "py_startswith [] p \<longleftrightarrow> p = []"
  by (auto simp: py_startswith_def)

lemma py_startswith_prefix: "py_startswith s p \<longleftrightarrow> prefix p s"
  unfolding py_startswith_def prefix_def by (metis append_eq_conv_conj)

lemma py_split_not_Nil [simp]: "py_split c s \<noteq> []"
  by (induction s) (auto split: list.splits)

lemma hd_py_split [py_simps]: "hd (py_split c s) = takeWhile (\<lambda>x. x \<noteq> c) s"
  by (induction s) (auto split: list.splits)

text \<open>\<^verbatim>\<open>lstrip\<close> leaves a string unchanged exactly when its first character is not stripped.\<close>
lemma py_lstrip_eq_self: "py_lstrip cs s = s \<longleftrightarrow> s = [] \<or> hd s \<notin> set cs"
  unfolding py_lstrip_def
  by (cases s) (auto, metis impossible_Cons length_dropWhile_le)

lemma py_lstrip_append: "set p \<subseteq> set cs \<Longrightarrow> py_lstrip cs (p @ s) = py_lstrip cs s"
  by (induction p) (auto simp: py_lstrip_def)

lemma py_split_max1_length: "length (py_split_max1 c s) = (if c \<in> set s then 2 else 1)"
  by (simp add: py_split_max1_def)

lemma py_split_max1_rejoin:
  "py_split_max1 c s = [a, b] \<Longrightarrow> s = a @ c # b"
proof -
  assume eq: "py_split_max1 c s = [a, b]"
  then have c: "c \<in> set s" by (auto simp: py_split_max1_def split: if_splits)
  then have "dropWhile (\<lambda>x. x \<noteq> c) s = c # tl (dropWhile (\<lambda>x. x \<noteq> c) s)"
    by (metis (mono_tags, lifting) dropWhile_eq_Nil_conv hd_dropWhile list.collapse)
  with eq c show ?thesis
    by (metis list.inject py_split_max1_def takeWhile_dropWhile_id)
qed

lemma map_of_overwrite:
  "map_of (map (\<lambda>(k', v'). if k' = k then (k', v) else (k', v')) d) =
   (\<lambda>x. if x = k then map_option (\<lambda>_. v) (map_of d x) else map_of d x)"
  by (induction d) (auto simp: fun_eq_iff)

lemma map_of_dict_set [simp]: "map_of (dict_set k v d) = (map_of d)(k \<mapsto> v)"
proof (cases "k \<in> fst ` set d")
  case True
  then obtain w where "map_of d k = Some w"
    by (metis map_of_eq_None_iff not_Some_eq)
  with True show ?thesis by (auto simp: dict_set_def map_of_overwrite fun_eq_iff)
next
  case False
  then have "map_of d k = None" by (simp add: map_of_eq_None_iff)
  with False show ?thesis
    by (auto simp: dict_set_def map_of_append map_add_def fun_eq_iff split: option.splits)
qed

lemma dict_set_keys [simp]: "fst ` set (dict_set k v d) = insert k (fst ` set d)"
proof -
  have "fst \<circ> (\<lambda>(k', v'). if k' = k then (k', v) else (k', v')) = fst"
    by auto
  then show ?thesis by (auto simp: dict_set_def image_comp)
qed

lemma map_fst_overwrite:
  "map fst (map (\<lambda>(k', v'). if k' = k then (k', v) else (k', v')) d) = map fst d"
  by (induction d) auto

lemma distinct_dict_set:
  assumes "distinct (map fst d)"
  shows "distinct (map fst (dict_set k v d))"
proof (cases "k \<in> fst ` set d")
  case True
  with assms show ?thesis by (simp only: dict_set_def if_True map_fst_overwrite)
next
  case False
  with assms show ?thesis by (simp add: dict_set_def)
qed

lemma dict_del_Some: "map_of d k \<noteq> None \<Longrightarrow> \<exists>d'. dict_del k d = Some d'"
  by (simp add: dict_del_def map_of_eq_None_iff)

lemma map_of_filter_key: "map_of (filter (\<lambda>p. fst p \<noteq> k) d) = (map_of d)(k := None)"
  by (induction d) (auto simp: fun_upd_twist)

lemma map_of_dict_del:
  "dict_del k d = Some d' \<Longrightarrow> map_of d' = (map_of d)(k := None)"
  by (auto simp: dict_del_def map_of_filter_key split: if_splits)

lemma dict_del_keys:
  "dict_del k d = Some d' \<Longrightarrow> fst ` set d' = fst ` set d - {k}"
  by (auto simp: dict_del_def split: if_splits)

lemma map_of_dict_of_pairs: "map_of (dict_of_pairs kvs) = map_of (rev kvs)"
proof -
  have "map_of (foldl (\<lambda>d (k, v). dict_set k v d) d0 kvs) = map_of (rev kvs @ d0)" for d0
  proof (induction kvs arbitrary: d0)
    case Nil
    then show ?case by simp
  next
    case (Cons p kvs)
    then show ?case by (cases p) simp
  qed
  then show ?thesis by (simp add: dict_of_pairs_def)
qed

lemma set_dict_set: "set (dict_set k v d) \<subseteq> insert (k, v) (set d)"
  by (auto simp: dict_set_def split: if_splits)

lemma set_dict_of_pairs: "set (dict_of_pairs kvs) \<subseteq> set kvs"
proof -
  have "set (foldl (\<lambda>d (k, v). dict_set k v d) d0 kvs) \<subseteq> set d0 \<union> set kvs" for d0
  proof (induction kvs arbitrary: d0)
    case Nil
    then show ?case by simp
  next
    case (Cons p kvs)
    from set_dict_set [of "fst p" "snd p" d0] Cons.IH [of "dict_set (fst p) (snd p) d0"]
    show ?case by (cases p) auto
  qed
  from this [of "[]"] show ?thesis by (simp add: dict_of_pairs_def)
qed

lemma nat_str_not_Nil [simp]: "nat_str n \<noteq> []"
  by (subst nat_str.simps) simp

end
