(* ===== verification/PyJson.thy ===== *)
theory PyJson
  imports Prelude
begin

text \<open>
  Python values decoded from JSON (what \<^verbatim>\<open>r.json()\<close> returns and what the router
  returns to FastAPI), the Python operations the router applies to them
  (truthiness, \<^verbatim>\<open>or\<close>, \<^verbatim>\<open>d.get(k, default)\<close>, \<^verbatim>\<open>k in d\<close>, \<^verbatim>\<open>d[k]\<close>,
  \<^verbatim>\<open>str(v)\<close> inside f-strings), and the exceptions the router raises or lets
  escape. Every Python operation that may raise returns a sum whose \<open>Inl\<close> is
  the exception. JSON numbers are modelled as integers.
\<close>

datatype json =
    JNull
  | JBool bool
  | JNum int
  | JStr string
  | JArr "json list"
  | JObj "(string \<times> json) list"

text \<open>Exceptions of plain Python operations (the message is not modelled).\<close>
datatype pyerr = AttributeError | TypeError | KeyError | ValueError | BinasciiError

text \<open>
  Exceptions that reach a handler: FastAPI's \<^verbatim>\<open>HTTPException(status_code, detail)\<close>,
  the \<^verbatim>\<open>requests\<close> exceptions (\<^verbatim>\<open>HTTPError\<close> from \<^verbatim>\<open>raise_for_status\<close> with
  the response's status code, \<^verbatim>\<open>str(e)\<close> and what \<^verbatim>\<open>e.response.json()\<close>
  gives (\<open>Inl\<close> when the body is not JSON), any other \<^verbatim>\<open>RequestException\<close>
  with \<^verbatim>\<open>str(e)\<close>, \<^verbatim>\<open>JSONDecodeError\<close> of \<^verbatim>\<open>r.json()\<close>), and plain errors.
\<close>
datatype exc =
    HTTPException int json
  | HTTPError int string "string + json"
  | RequestException string
  | JSONDecodeError string
  | PyError pyerr

type_synonym 'a result = "exc + 'a"

text \<open>
  The status code the client receives for an exception that leaves a route:
  FastAPI renders \<^verbatim>\<open>HTTPException\<close> with its own code, anything else is an
  internal server error.
\<close>
fun response_status :: "exc \<Rightarrow> int" where
  "response_status (HTTPException c d) = c"
| "response_status _ = 500"

text \<open>\<^verbatim>\<open>str(e)\<close> of the exceptions caught by \<^verbatim>\<open>except Exception as e\<close>.\<close>
fun exc_str :: "exc \<Rightarrow> string" where
  "exc_str (HTTPError c m b) = m"
| "exc_str (RequestException m) = m"
| "exc_str (JSONDecodeError m) = m"
| "exc_str (HTTPException c d) = int_str c @ '': '' @ (case d of JStr s \<Rightarrow> s | _ \<Rightarrow> [])"
| "exc_str (PyError e) = []"

subsection \<open>Truthiness and \<^verbatim>\<open>or\<close>\<close>

fun truthy :: "json \<Rightarrow> bool" where
  "truthy JNull = False"
| "truthy (JBool b) = b"
| "truthy (JNum n) = (n \<noteq> 0)"
| "truthy (JStr s) = (s \<noteq> [])"
| "truthy (JArr xs) = (xs \<noteq> [])"
| "truthy (JObj kvs) = (kvs \<noteq> [])"

text \<open>An \<^verbatim>\<open>Optional[str]\<close> as a Python value.\<close>
definition opt_json :: "string option \<Rightarrow> json" where
  "opt_json v = (case v of None \<Rightarrow> JNull | Some s \<Rightarrow> JStr s)"

text \<open>\<^verbatim>\<open>a or b\<close>.\<close>
definition py_or :: "json \<Rightarrow> json \<Rightarrow> json" where
  "py_or a b = (if truthy a then a else b)"

subsection \<open>Dictionary access\<close>

text \<open>Lookup in a decoded JSON object: the last binding of a duplicated key wins.\<close>
definition obj_lookup :: "(string \<times> json) list \<Rightarrow> string \<Rightarrow> json option" where
  "obj_lookup kvs k = map_of (dict_of_pairs kvs) k"

text \<open>\<^verbatim>\<open>v.get(k, d)\<close>: only dicts have \<^verbatim>\<open>get\<close>.\<close>
definition dict_get :: "json \<Rightarrow> string \<Rightarrow> json \<Rightarrow> pyerr + json" where
  "dict_get v k d =
     (case v of JObj kvs \<Rightarrow> Inr (case obj_lookup kvs k of None \<Rightarrow> d | Some x \<Rightarrow> x)
      | _ \<Rightarrow> Inl AttributeError)"

text \<open>\<^verbatim>\<open>k in v\<close> for a string \<open>k\<close>: key test, list membership or substring test.\<close>
definition py_in :: "string \<Rightarrow> json \<Rightarrow> pyerr + bool" where
  "py_in k v =
     (case v of JObj kvs \<Rightarrow> Inr (obj_lookup kvs k \<noteq> None)
      | JArr xs \<Rightarrow> Inr (JStr k \<in> set xs)
      | JStr s \<Rightarrow> Inr (sublist k s)
      | _ \<Rightarrow> Inl TypeError)"

text \<open>\<^verbatim>\<open>v[k]\<close> for a string \<open>k\<close>.\<close>
definition py_index :: "json \<Rightarrow> string \<Rightarrow> pyerr + json" where
  "py_index v k =
     (case v of JObj kvs \<Rightarrow> (case obj_lookup kvs k of None \<Rightarrow> Inl KeyError | Some x \<Rightarrow> Inr x)
      | _ \<Rightarrow> Inl TypeError)"

subsection \<open>\<^verbatim>\<open>str\<close> and \<^verbatim>\<open>repr\<close>\<close>

definition hex_digit :: "nat \<Rightarrow> char" where
  "hex_digit n = ''0123456789abcdef'' ! n"

text \<open>
  \<^verbatim>\<open>repr(s)\<close> of a string: single quotes unless the string holds a single quote
  and no double quote; backslash, the chosen quote, \<^verbatim>\<open>\n\<close>, \<^verbatim>\<open>\r\<close>, \<^verbatim>\<open>\t\<close>
  and the other ASCII control characters are escaped.
\<close>
definition repr_char :: "char \<Rightarrow> char \<Rightarrow> string" where
  "repr_char q c =
     (if c = q \<or> c = CHR 0x5C then [CHR 0x5C, c]
      else if c = CHR 0x0A then [CHR 0x5C, CHR ''n'']
      else if c = CHR 0x0D then [CHR 0x5C, CHR ''r'']
      else if c = CHR 0x09 then [CHR 0x5C, CHR ''t'']
      else if of_char c < (32::nat) \<or> of_char c = (127::nat)
      then [CHR 0x5C, CHR ''x'', hex_digit (of_char c div 16), hex_digit (of_char c mod 16)]
      else [c])"

definition str_repr :: "string \<Rightarrow> string" where
  "str_repr s =
     (let q = (if CHR 0x27 \<in> set s \<and> CHR 0x22 \<notin> set s then CHR 0x22 else CHR 0x27)
      in q # concat (map (repr_char q) s) @ [q])"

function (sequential) py_repr :: "json \<Rightarrow> string" where
  "py_repr JNull = ''None''"
| "py_repr (JBool b) = (if b then ''True'' else ''False'')"
| "py_repr (JNum n) = int_str n"
| "py_repr (JStr s) = str_repr s"
| "py_repr (JArr xs) = ''['' @ py_join '', '' (map py_repr xs) @ '']''"
| "py_repr (JObj kvs) =
     ''{'' @ py_join '', '' (map (\<lambda>(k, v). str_repr k @ '': '' @ py_repr v) (dict_of_pairs kvs)) @ ''}''"
  by pat_completeness auto
termination
proof (relation "measure size")
  fix kvs and p :: "string \<times> json" and k v
  assume "p \<in> set (dict_of_pairs kvs)" "(k, v) = p"
  then have "(k, v) \<in> set kvs" using set_dict_of_pairs by blast
  then have "size v < Suc (size_list (size_prod (\<lambda>x. 0) size) kvs)"
    by (induction kvs) auto
  then show "(v, JObj kvs) \<in> measure size" by simp
qed (auto intro: size_list_estimation' simp: less_Suc_eq_le)

text \<open>\<^verbatim>\<open>str(v)\<close>, what an f-string field prints: strings as they are, the rest as \<^verbatim>\<open>repr\<close>.\<close>
definition py_str :: "json \<Rightarrow> string" where
  "py_str v = (case v of JStr s \<Rightarrow> s | _ \<Rightarrow> py_repr v)"

subsection \<open>Lemmas\<close>

lemma obj_lookup_Cons_same [simp]: "obj_lookup ((k, v) # kvs) k = (case obj_lookup kvs k of None \<Rightarrow> Some v | Some w \<Rightarrow> Some w)"
  by (simp add: obj_lookup_def map_of_dict_of_pairs map_add_def split: option.splits)

lemma obj_lookup_rev: "obj_lookup kvs k = map_of (rev kvs) k"
  by (simp add: obj_lookup_def map_of_dict_of_pairs)

lemma map_of_rev_distinct:
  assumes d: "distinct (map fst kvs)"
  shows "map_of (rev kvs) = map_of kvs"
proof (rule ext)
  fix k
  from d have d': "distinct (map fst (rev kvs))" by (simp add: rev_map [symmetric])
  have "map_of (rev kvs) k = Some y \<longleftrightarrow> map_of kvs k = Some y" for y
    using map_of_eq_Some_iff [OF d] map_of_eq_Some_iff [OF d'] by simp
  then show "map_of (rev kvs) k = map_of kvs k"
    by (metis option.exhaust)
qed

lemma obj_lookup_distinct:
  "distinct (map fst kvs) \<Longrightarrow> obj_lookup kvs k = map_of kvs k"
  by (simp add: obj_lookup_rev map_of_rev_distinct)

lemma dict_get_JObj [simp, py_simps]:
  "dict_get (JObj kvs) k d = Inr (case obj_lookup kvs k of None \<Rightarrow> d | Some x \<Rightarrow> x)"
  by (simp add: dict_get_def)

lemma dict_get_Inr_iff: "(\<exists>x. dict_get v k d = Inr x) \<longleftrightarrow> (\<exists>kvs. v = JObj kvs)"
  by (cases v) (auto simp: dict_get_def)

lemma py_or_truthy [simp]: "truthy a \<Longrightarrow> py_or a b = a"
  and py_or_falsy [simp]: "\<not> truthy a \<Longrightarrow> py_or a b = b"
  by (simp_all add: py_or_def)

lemma opt_json_simps [simp, py_simps]: "opt_json None = JNull" "opt_json (Some s) = JStr s"
  by (simp_all add: opt_json_def)

lemma py_str_JStr [simp, py_simps]: "py_str (JStr s) = s"
  by (simp add: py_str_def)

end
