(* ===== verification/Config.thy ===== *)
theory Config
  imports PyJson
begin

text \<open>
  Provider configuration and its admin routes (\<^verbatim>\<open>videos.py\<close> lines 33--101):
  the pydantic model \<^verbatim>\<open>VideosConfig\<close>, the attributes of
  \<^verbatim>\<open>request.app.state.config\<close> that the router reads with \<^verbatim>\<open>getattr\<close>, the
  routes \<^verbatim>\<open>GET /config\<close>, \<^verbatim>\<open>POST /config/update\<close> and \<^verbatim>\<open>GET /models\<close>, and
  the authorisation dependencies \<^verbatim>\<open>get_verified_user\<close> / \<^verbatim>\<open>get_admin_user\<close>
  of \<^verbatim>\<open>open_webui.utils.auth\<close> (outside the sources; modelled from the spec).
\<close>

subsection \<open>Users and the authorisation dependencies\<close>

record user =
  user_id :: string
  user_name :: string
  user_email :: string
  user_role :: string

definition ACCESS_PROHIBITED :: string where
  "ACCESS_PROHIBITED = ''You do not have permission to access this resource. Please contact your administrator for assistance.''"

definition get_verified_user :: "user \<Rightarrow> user result" where
  "get_verified_user u =
     (if user_role u \<in> {''user'', ''admin''} then Inr u
      else Inl (HTTPException 401 (JStr ACCESS_PROHIBITED)))"

definition get_admin_user :: "user \<Rightarrow> user result" where
  "get_admin_user u =
     (if user_role u = ''admin'' then Inr u else Inl (HTTPException 401 (JStr ACCESS_PROHIBITED)))"

subsection \<open>The configuration\<close>

record VideosConfig =
  ENABLE_VIDEO_GENERATION :: bool
  VIDEO_GENERATION_ENGINE :: string
  VIDEO_GENERATION_MODEL :: string
  VIDEO_DURATION :: "string option"
  VIDEO_SIZE :: "string option"
  VIDEO_QUALITY :: "string option"
  VIDEOS_OPENAI_API_BASE_URL :: string
  VIDEOS_OPENAI_API_KEY :: string

text \<open>
  The attributes of \<^verbatim>\<open>request.app.state.config\<close>: \<open>None\<close> when the attribute
  was never set, so that \<^verbatim>\<open>getattr\<close> falls back to its default. An
  \<^verbatim>\<open>Optional[str]\<close> attribute that is set to \<^verbatim>\<open>None\<close> is \<open>Some None\<close>:
  \<^verbatim>\<open>getattr\<close> then returns \<^verbatim>\<open>None\<close>, not the default.
\<close>
record app_config =
  cfg_ENABLE_VIDEO_GENERATION :: "bool option"
  cfg_VIDEO_GENERATION_ENGINE :: "string option"
  cfg_VIDEO_GENERATION_MODEL :: "string option"
  cfg_VIDEO_DURATION :: "string option option"
  cfg_VIDEO_SIZE :: "string option option"
  cfg_VIDEO_QUALITY :: "string option option"
  cfg_VIDEOS_OPENAI_API_BASE_URL :: "string option"
  cfg_VIDEOS_OPENAI_API_KEY :: "string option"

text \<open>\<^verbatim>\<open>getattr(obj, name, default)\<close>.\<close>
definition getattr :: "'a option \<Rightarrow> 'a \<Rightarrow> 'a" where
  "getattr a d = (case a of None \<Rightarrow> d | Some v \<Rightarrow> v)"

text \<open>A fresh application state in which none of the attributes is set.\<close>
definition unset_config :: app_config where
  "unset_config = \<lparr>cfg_ENABLE_VIDEO_GENERATION = None, cfg_VIDEO_GENERATION_ENGINE = None,
     cfg_VIDEO_GENERATION_MODEL = None, cfg_VIDEO_DURATION = None, cfg_VIDEO_SIZE = None,
     cfg_VIDEO_QUALITY = None, cfg_VIDEOS_OPENAI_API_BASE_URL = None,
     cfg_VIDEOS_OPENAI_API_KEY = None\<rparr>"

text \<open>The reads every handler repeats.\<close>
definition cfg_engine :: "app_config \<Rightarrow> string" where
  "cfg_engine c = getattr (cfg_VIDEO_GENERATION_ENGINE c) ''openai''"

definition cfg_api_key :: "app_config \<Rightarrow> string" where
  "cfg_api_key c = getattr (cfg_VIDEOS_OPENAI_API_KEY c) []"

definition cfg_base_url :: "app_config \<Rightarrow> string" where
  "cfg_base_url c = getattr (cfg_VIDEOS_OPENAI_API_BASE_URL c) ''https://api.openai.com/v1''"

subsection \<open>Routes\<close>

text \<open>\<^verbatim>\<open>get_config\<close>: the body after the admin dependency.\<close>
definition get_config :: "app_config \<Rightarrow> VideosConfig" where
  "get_config c =
     \<lparr>ENABLE_VIDEO_GENERATION = getattr (cfg_ENABLE_VIDEO_GENERATION c) False,
      VIDEO_GENERATION_ENGINE = getattr (cfg_VIDEO_GENERATION_ENGINE c) ''openai'',
      VIDEO_GENERATION_MODEL = getattr (cfg_VIDEO_GENERATION_MODEL c) ''sora-2'',
      VIDEO_DURATION = getattr (cfg_VIDEO_DURATION c) (Some ''4''),
      VIDEO_SIZE = getattr (cfg_VIDEO_SIZE c) (Some ''1920x1080''),
      VIDEO_QUALITY = getattr (cfg_VIDEO_QUALITY c) (Some ''standard''),
      VIDEOS_OPENAI_API_BASE_URL = getattr (cfg_VIDEOS_OPENAI_API_BASE_URL c) ''https://api.openai.com/v1'',
      VIDEOS_OPENAI_API_KEY = getattr (cfg_VIDEOS_OPENAI_API_KEY c) []\<rparr>"

text \<open>\<^verbatim>\<open>update_config\<close>: sets the eight attributes, then calls \<^verbatim>\<open>get_config\<close> directly.\<close>
definition update_config :: "app_config \<Rightarrow> VideosConfig \<Rightarrow> app_config \<times> VideosConfig" where
  "update_config c f =
     (let c' = c\<lparr>cfg_ENABLE_VIDEO_GENERATION := Some (ENABLE_VIDEO_GENERATION f),
                 cfg_VIDEO_GENERATION_ENGINE := Some (VIDEO_GENERATION_ENGINE f),
                 cfg_VIDEO_GENERATION_MODEL := Some (VIDEO_GENERATION_MODEL f),
                 cfg_VIDEO_DURATION := Some (VIDEO_DURATION f),
                 cfg_VIDEO_SIZE := Some (VIDEO_SIZE f),
                 cfg_VIDEO_QUALITY := Some (VIDEO_QUALITY f),
                 cfg_VIDEOS_OPENAI_API_BASE_URL := Some (VIDEOS_OPENAI_API_BASE_URL f),
                 cfg_VIDEOS_OPENAI_API_KEY := Some (VIDEOS_OPENAI_API_KEY f)\<rparr>
      in (c', get_config c'))"

text \<open>The two admin routes with their dependency \<^verbatim>\<open>Depends(get_admin_user)\<close>.\<close>
definition get_config_route :: "user \<Rightarrow> app_config \<Rightarrow> VideosConfig result" where
  "get_config_route u c = (case get_admin_user u of Inl e \<Rightarrow> Inl e | Inr _ \<Rightarrow> Inr (get_config c))"

definition update_config_route ::
  "user \<Rightarrow> app_config \<Rightarrow> VideosConfig \<Rightarrow> app_config \<times> VideosConfig result" where
  "update_config_route u c f =
     (case get_admin_user u of Inl e \<Rightarrow> (c, Inl e)
      | Inr _ \<Rightarrow> (case update_config c f of (c', r) \<Rightarrow> (c', Inr r)))"

text \<open>\<^verbatim>\<open>get_models\<close>: the body after the verified-user dependency.\<close>
definition get_models :: "app_config \<Rightarrow> json" where
  "get_models c =
     (if cfg_engine c = ''openai''
      then JArr [JObj [(''id'', JStr ''sora-2''), (''name'', JStr ''Sora 2'')],
                 JObj [(''id'', JStr ''sora-2-pro''), (''name'', JStr ''Sora 2 Pro'')]]
      else JArr [])"

subsection \<open>Lemmas\<close>

lemma getattr_simps [simp]: "getattr None d = d" "getattr (Some v) d = v"
  by (simp_all add: getattr_def)

lemma get_admin_user_Inr [simp]:
  "get_admin_user u = Inr u' \<longleftrightarrow> user_role u = ''admin'' \<and> u' = u"
  by (auto simp: get_admin_user_def)

lemma get_admin_user_Inl:
  "user_role u \<noteq> ''admin'' \<Longrightarrow> get_admin_user u = Inl (HTTPException 401 (JStr ACCESS_PROHIBITED))"
  by (simp add: get_admin_user_def)

lemma get_verified_user_admin [simp]: "user_role u = ''admin'' \<Longrightarrow> get_verified_user u = Inr u"
  by (simp add: get_verified_user_def)

lemma cfg_reads_update [simp]:
  "cfg_engine (fst (update_config c f)) = VIDEO_GENERATION_ENGINE f"
  "cfg_api_key (fst (update_config c f)) = VIDEOS_OPENAI_API_KEY f"
  "cfg_base_url (fst (update_config c f)) = VIDEOS_OPENAI_API_BASE_URL f"
  by (simp_all add: update_config_def cfg_engine_def cfg_api_key_def cfg_base_url_def Let_def)

subsection \<open>Properties\<close>

text \<open>
  C14. Round trip of the admin routes: \<^verbatim>\<open>update_config\<close> answers exactly the
  submitted configuration, and a later \<^verbatim>\<open>get_config\<close> reads it back unchanged.
\<close>
theorem update_config_roundtrip:
  "snd (update_config c f) = f \<and> get_config (fst (update_config c f)) = f"
  by (cases f) (simp add: update_config_def get_config_def Let_def)

text \<open>
  C15. Only an admin changes the configuration: for any other role the route
  answers 401 and the application state is left as it was.
\<close>
theorem update_config_route_requires_admin:
  "user_role u \<noteq> ''admin'' \<Longrightarrow>
   update_config_route u c f = (c, Inl (HTTPException 401 (JStr ACCESS_PROHIBITED)))"
  by (simp add: update_config_route_def get_admin_user_Inl)

end
