(* ===== verification/Upstream.thy ===== *)
theory Upstream
  imports Config
begin

text \<open>
  The outbound side shared by every route (the spec's Upstream Client): the
  requests the router sends with \<^verbatim>\<open>requests.get/post/delete\<close>, the upstream's
  answers, \<^verbatim>\<open>raise_for_status\<close>, and the three routes that only forward one call:
  \<^verbatim>\<open>list_videos\<close> (lines 251--288), \<^verbatim>\<open>get_video\<close> (291--322) and
  \<^verbatim>\<open>delete_video\<close> (376--407).

  The outside world is a record \<open>net\<close>: the log of the requests sent so far, the
  times they were sent at, and the wall clock \<^verbatim>\<open>time.time()\<close> in milliseconds. The upstream is an oracle
  \<open>upstream\<close>: the answer to the \<open>n\<close>-th request and the time it takes. Every
  behaviour of a remote provider is one oracle, so a theorem quantified over the
  oracle holds whatever the provider does.
\<close>

datatype http_method = GET | POST | DELETE

text \<open>Request bodies: none, \<^verbatim>\<open>json=data\<close>, or \<^verbatim>\<open>data=data, files=files\<close> (multipart);
  a file part is (field, file name, bytes, MIME type).\<close>
datatype req_body =
    NoBody
  | JsonBody json
  | FormBody json "(string \<times> string \<times> byte list \<times> string) list"

record outbound =
  out_method :: http_method
  out_url :: string
  out_headers :: headers
  out_params :: "(string, json) pydict"
  out_body :: req_body
  out_stream :: bool

text \<open>One read of a streamed body: a chunk of bytes, or a transfer error.\<close>
datatype read_event = Chunk "byte list" | ReadFailure string

record response =
  status_code :: int
  reason :: string
  resp_headers :: headers
  resp_json :: "string + json"
  resp_body :: "read_event list"

text \<open>\<open>ConnFailure m\<close>: \<^verbatim>\<open>requests\<close> raised a \<^verbatim>\<open>RequestException\<close> (connection
  refused, DNS, timeout) whose \<^verbatim>\<open>str\<close> is \<open>m\<close>.\<close>
datatype http_outcome = ConnFailure string | Resp response

record net =
  sent :: "outbound list"
  sent_at :: "int list"
  clock :: int

record upstream =
  reply :: "nat \<Rightarrow> outbound \<Rightarrow> http_outcome"
  latency :: "nat \<Rightarrow> nat"

type_synonym 'a step = "net \<Rightarrow> 'a result \<times> net"

subsection \<open>Sending a request\<close>

text \<open>One blocking call (\<^verbatim>\<open>await asyncio.to_thread(requests.<method>, ...)\<close>).\<close>
definition http_call :: "upstream \<Rightarrow> outbound \<Rightarrow> net \<Rightarrow> http_outcome \<times> net" where
  "http_call up rq st =
     (let n = length (sent st)
      in (reply up n rq, st\<lparr>sent := sent st @ [rq], sent_at := sent_at st @ [clock st],
                              clock := clock st + int (latency up n)\<rparr>))"

text \<open>\<^verbatim>\<open>Response.raise_for_status\<close> of \<^verbatim>\<open>requests\<close>: codes 400--599 raise.\<close>
definition raise_for_status :: "string \<Rightarrow> response \<Rightarrow> unit result" where
  "raise_for_status url r =
     (let c = status_code r in
      if 400 \<le> c \<and> c < 500
      then Inl (HTTPError c (int_str c @ '' Client Error: '' @ reason r @ '' for url: '' @ url) (resp_json r))
      else if 500 \<le> c \<and> c < 600
      then Inl (HTTPError c (int_str c @ '' Server Error: '' @ reason r @ '' for url: '' @ url) (resp_json r))
      else Inr ())"

text \<open>Send, then \<^verbatim>\<open>r.raise_for_status()\<close>: the first exception is the result.\<close>
definition request_checked :: "upstream \<Rightarrow> outbound \<Rightarrow> response step" where
  "request_checked up rq st =
     (case http_call up rq st of
        (ConnFailure m, st') \<Rightarrow> (Inl (RequestException m), st')
      | (Resp r, st') \<Rightarrow>
          (case raise_for_status (out_url rq) r of
             Inl e \<Rightarrow> (Inl e, st')
           | Inr _ \<Rightarrow> (Inr r, st')))"

text \<open>
  The body of the \<^verbatim>\<open>try\<close> blocks that answer JSON: send,
  \<^verbatim>\<open>r.raise_for_status()\<close>, \<^verbatim>\<open>r.json()\<close>.
\<close>
definition request_json :: "upstream \<Rightarrow> outbound \<Rightarrow> json step" where
  "request_json up rq st =
     (case request_checked up rq st of
        (Inl e, st') \<Rightarrow> (Inl e, st')
      | (Inr r, st') \<Rightarrow>
          (case resp_json r of
             Inl m \<Rightarrow> (Inl (JSONDecodeError m), st')
           | Inr j \<Rightarrow> (Inr j, st')))"

text \<open>\<^verbatim>\<open>except Exception as e: raise HTTPException(status_code=500, detail=str(e))\<close>.\<close>
definition catch_500 :: "'a result \<Rightarrow> 'a result" where
  "catch_500 r = (case r of Inl e \<Rightarrow> Inl (HTTPException 500 (JStr (exc_str e))) | Inr v \<Rightarrow> Inr v)"

definition bearer :: "string \<Rightarrow> headers" where
  "bearer key = [(''Authorization'', ''Bearer '' @ key)]"

definition key_missing :: string where
  "key_missing = ''Video API key not configured.''"

text \<open>A route behind \<^verbatim>\<open>Depends(get_verified_user)\<close>: the dependency runs first.\<close>
definition verified_route :: "user \<Rightarrow> 'a step \<Rightarrow> 'a step" where
  "verified_route u h st = (case get_verified_user u of Inl e \<Rightarrow> (Inl e, st) | Inr _ \<Rightarrow> h st)"

subsection \<open>The forwarding routes\<close>

definition list_videos :: "app_config \<Rightarrow> upstream \<Rightarrow> int \<Rightarrow> string option \<Rightarrow> json step" where
  "list_videos c up limit after st =
     (let api_key = cfg_api_key c in
      if api_key = [] then (Inl (HTTPException 400 (JStr key_missing)), st)
      else
        (let base_url = cfg_base_url c;
             params = [(''limit'', JNum limit)];
             params = (if truthy (opt_json after) then dict_set ''after'' (opt_json after) params
                       else params);
             rq = \<lparr>out_method = GET, out_url = base_url @ ''/videos'', out_headers = bearer api_key,
                   out_params = params, out_body = NoBody, out_stream = False\<rparr>;
             (r, st') = request_json up rq st
         in (catch_500 r, st')))"

text \<open>The status request of \<^verbatim>\<open>get_video\<close> (lines 302--317).\<close>
definition status_request :: "app_config \<Rightarrow> string \<Rightarrow> outbound" where
  "status_request c video_id =
     \<lparr>out_method = GET, out_url = cfg_base_url c @ ''/videos/'' @ video_id,
      out_headers = bearer (cfg_api_key c), out_params = [], out_body = NoBody, out_stream = False\<rparr>"

definition get_video :: "app_config \<Rightarrow> upstream \<Rightarrow> string \<Rightarrow> json step" where
  "get_video c up video_id st =
     (let api_key = cfg_api_key c in
      if api_key = [] then (Inl (HTTPException 400 (JStr key_missing)), st)
      else (let (r, st') = request_json up (status_request c video_id) st in (catch_500 r, st')))"

definition delete_video :: "app_config \<Rightarrow> upstream \<Rightarrow> string \<Rightarrow> json step" where
  "delete_video c up video_id st =
     (let api_key = cfg_api_key c in
      if api_key = [] then (Inl (HTTPException 400 (JStr key_missing)), st)
      else
        (let base_url = cfg_base_url c;
             rq = \<lparr>out_method = DELETE, out_url = base_url @ ''/videos/'' @ video_id,
                   out_headers = bearer api_key, out_params = [], out_body = NoBody,
                   out_stream = False\<rparr>;
             (r, st') = request_json up rq st
         in (catch_500 r, st')))"

declare list_videos_def [handler_defs] get_video_def [handler_defs] delete_video_def [handler_defs]

subsection \<open>Lemmas\<close>

text \<open>What one call does to the world: one request logged, the clock advanced.\<close>
lemma http_call_net:
  "http_call up rq st = (ans, st') \<Longrightarrow>
   ans = reply up (length (sent st)) rq \<and> sent st' = sent st @ [rq] \<and>
   sent_at st' = sent_at st @ [clock st] \<and>
   clock st' = clock st + int (latency up (length (sent st)))"
  by (auto simp: http_call_def Let_def)

lemma request_checked_net:
  assumes "request_checked up rq st = (r, st')"
  shows "sent st' = sent st @ [rq] \<and> sent_at st' = sent_at st @ [clock st] \<and>
         clock st' = clock st + int (latency up (length (sent st)))"
  using assms http_call_net [of up rq st]
  by (auto simp: request_checked_def split: prod.splits http_outcome.splits sum.splits)

lemma request_json_net:
  assumes "request_json up rq st = (r, st')"
  shows "sent st' = sent st @ [rq] \<and> sent_at st' = sent_at st @ [clock st] \<and>
         clock st' = clock st + int (latency up (length (sent st)))"
  using assms request_checked_net [of up rq st]
  by (auto simp: request_json_def split: prod.splits sum.splits)

text \<open>The answer of the call, read off the oracle.\<close>
lemma sent_request_checked [simp]: "sent (snd (request_checked up rq st)) = sent st @ [rq]"
  using request_checked_net [of up rq st] by (cases "request_checked up rq st") simp

lemma sent_request_json [simp]: "sent (snd (request_json up rq st)) = sent st @ [rq]"
  using request_json_net [of up rq st] by (cases "request_json up rq st") simp

lemma request_checked_result:
  "fst (request_checked up rq st) =
     (case reply up (length (sent st)) rq of
        ConnFailure m \<Rightarrow> Inl (RequestException m)
      | Resp r \<Rightarrow> (case raise_for_status (out_url rq) r of Inl e \<Rightarrow> Inl e | Inr _ \<Rightarrow> Inr r))"
  by (simp add: request_checked_def http_call_def Let_def split: http_outcome.splits sum.splits)

lemma request_json_result:
  "fst (request_json up rq st) =
     (case reply up (length (sent st)) rq of
        ConnFailure m \<Rightarrow> Inl (RequestException m)
      | Resp r \<Rightarrow> (case raise_for_status (out_url rq) r of
                   Inl e \<Rightarrow> Inl e
                 | Inr _ \<Rightarrow> (case resp_json r of Inl m \<Rightarrow> Inl (JSONDecodeError m) | Inr j \<Rightarrow> Inr j)))"
  by (simp add: request_json_def request_checked_def http_call_def Let_def
           split: http_outcome.splits sum.splits prod.splits)

lemma raise_for_status_ok [simp]:
  "status_code r < 400 \<Longrightarrow> raise_for_status url r = Inr ()"
  by (simp add: raise_for_status_def Let_def)

lemma raise_for_status_Inl:
  "raise_for_status url r = Inl e \<Longrightarrow> (\<exists>m. e = HTTPError (status_code r) m (resp_json r)) \<and> 400 \<le> status_code r \<and> status_code r < 600"
  by (auto simp: raise_for_status_def Let_def split: if_splits)

lemma catch_500_Inl [simp]: "catch_500 (Inl e) = Inl (HTTPException 500 (JStr (exc_str e)))"
  and catch_500_Inr [simp]: "catch_500 (Inr v) = Inr v"
  by (simp_all add: catch_500_def)

lemma get_video_eq:
  "cfg_api_key c \<noteq> [] \<Longrightarrow>
   get_video c up vid st =
     (catch_500 (fst (request_json up (status_request c vid) st)), snd (request_json up (status_request c vid) st))"
  by (simp add: get_video_def split: prod.splits)

text \<open>The characteristic cases of a call, one per kind of answer.\<close>
lemma request_checked_ok:
  "reply up (length (sent st)) rq = Resp r \<Longrightarrow> status_code r < 400 \<Longrightarrow>
   request_checked up rq st = (Inr r, snd (http_call up rq st))"
  by (simp add: request_checked_def http_call_def Let_def)

lemma request_checked_conn:
  "reply up (length (sent st)) rq = ConnFailure m \<Longrightarrow>
   request_checked up rq st = (Inl (RequestException m), snd (http_call up rq st))"
  by (simp add: request_checked_def http_call_def Let_def)

lemma request_checked_http_error:
  "reply up (length (sent st)) rq = Resp r \<Longrightarrow> 400 \<le> status_code r \<Longrightarrow> status_code r < 600 \<Longrightarrow>
   \<exists>m. request_checked up rq st = (Inl (HTTPError (status_code r) m (resp_json r)), snd (http_call up rq st))"
  by (auto simp: request_checked_def http_call_def Let_def raise_for_status_def)

lemma request_json_ok:
  "reply up (length (sent st)) rq = Resp r \<Longrightarrow> status_code r < 400 \<Longrightarrow> resp_json r = Inr j \<Longrightarrow>
   request_json up rq st = (Inr j, snd (http_call up rq st))"
  by (simp add: request_json_def request_checked_ok)

lemma request_json_conn:
  "reply up (length (sent st)) rq = ConnFailure m \<Longrightarrow>
   request_json up rq st = (Inl (RequestException m), snd (http_call up rq st))"
  by (simp add: request_json_def request_checked_conn)

lemma request_json_http_error:
  "reply up (length (sent st)) rq = Resp r \<Longrightarrow> 400 \<le> status_code r \<Longrightarrow> status_code r < 600 \<Longrightarrow>
   \<exists>m. request_json up rq st = (Inl (HTTPError (status_code r) m (resp_json r)), snd (http_call up rq st))"
  using request_checked_http_error [of up st rq r] by (auto simp: request_json_def)

lemma http_call_snd:
  "snd (http_call up rq st) =
     st\<lparr>sent := sent st @ [rq], sent_at := sent_at st @ [clock st],
        clock := clock st + int (latency up (length (sent st)))\<rparr>"
  by (simp add: http_call_def Let_def)

lemmas request_cases = request_checked_ok request_checked_conn request_json_ok request_json_conn

lemmas request_json_facts = request_json_net request_json_result

text \<open>The guard shared by the forwarding routes: no key, no request.\<close>
lemma forwarding_routes_no_key:
  assumes "cfg_api_key c = []"
  shows "list_videos c up lim after st = (Inl (HTTPException 400 (JStr key_missing)), st)"
    and "get_video c up vid st = (Inl (HTTPException 400 (JStr key_missing)), st)"
    and "delete_video c up vid st = (Inl (HTTPException 400 (JStr key_missing)), st)"
  using assms by (simp_all add: list_videos_def get_video_def delete_video_def)

subsection \<open>Properties\<close>

text \<open>
  C18. A status read that the upstream rejects with a 4xx or 5xx code is answered
  with status 500, not with the upstream's code: the \<^verbatim>\<open>HTTPError\<close> of
  \<^verbatim>\<open>raise_for_status\<close> is caught by \<^verbatim>\<open>except Exception\<close>.
\<close>
theorem get_video_error_status_lost:
  assumes "cfg_api_key c \<noteq> []" "reply up (length (sent st)) (status_request c vid) = Resp r"
    and "400 \<le> status_code r" "status_code r < 600"
  shows "\<exists>m. fst (get_video c up vid st) = Inl (HTTPException 500 (JStr m))"
proof -
  from request_json_http_error [OF assms(2-4)] obtain m where
    "request_json up (status_request c vid) st =
       (Inl (HTTPError (status_code r) m (resp_json r)), snd (http_call up (status_request c vid) st))"
    by blast
  with assms(1) show ?thesis by (simp add: get_video_eq)
qed

text \<open>
  C28. The list request: one \<^verbatim>\<open>GET {base_url}/videos\<close> whose query has the
  caller's \<^verbatim>\<open>limit\<close> and carries \<^verbatim>\<open>after\<close> exactly when the cursor is truthy.
\<close>
theorem list_videos_request:
  assumes "cfg_api_key c \<noteq> []" "list_videos c up lim after st = (r, st')"
  shows "\<exists>rq. sent st' = sent st @ [rq] \<and> out_method rq = GET \<and>
           out_url rq = cfg_base_url c @ ''/videos'' \<and>
           map_of (out_params rq) ''limit'' = Some (JNum lim) \<and>
           map_of (out_params rq) ''after'' =
             (if truthy (opt_json after) then Some (opt_json after) else None)"
proof -
  define params where "params =
    (if truthy (opt_json after) then dict_set ''after'' (opt_json after) [(''limit'', JNum lim)]
     else [(''limit'', JNum lim)])"
  define rq where "rq = \<lparr>out_method = GET, out_url = cfg_base_url c @ ''/videos'',
    out_headers = bearer (cfg_api_key c), out_params = params, out_body = NoBody, out_stream = False\<rparr>"
  obtain x st'' where rj: "request_json up rq st = (x, st'')" by fastforce
  with assms have "st'' = st'"
    by (simp add: list_videos_def rq_def params_def Let_def split: if_splits)
  with request_json_net [OF rj] have "sent st' = sent st @ [rq]" by simp
  moreover have "map_of (out_params rq) ''limit'' = Some (JNum lim)"
    by (simp add: rq_def params_def)
  moreover have "map_of (out_params rq) ''after'' =
      (if truthy (opt_json after) then Some (opt_json after) else None)"
    by (simp add: rq_def params_def)
  ultimately show ?thesis by (auto simp: rq_def)
qed

end
