(* ===== verification/Base64.thy ===== *)
theory Base64
  imports PyJson
begin

unbundle bit_operations_syntax

text \<open>
  \<^verbatim>\<open>base64.b64decode(s)\<close> as the submission route calls it (\<^verbatim>\<open>videos.py\<close> line 200)
  to turn the payload of a \<^verbatim>\<open>data:\<close> URI into image bytes. The standard library is
  outside the sources; the model follows CPython's \<^verbatim>\<open>base64.b64decode\<close> (a
  \<^verbatim>\<open>str\<close> argument must be ASCII, else \<^verbatim>\<open>ValueError\<close>) and the non-strict
  decoder \<^verbatim>\<open>binascii.a2b_base64\<close> of CPython 3.11 and later: characters outside
  the alphabet are skipped, a pad \<^verbatim>\<open>=\<close> counts only after two data characters of
  a quantum and ends decoding once the quantum is complete, and a final partial
  quantum raises \<^verbatim>\<open>binascii.Error\<close>. The decoder state is the C loop's locals.
\<close>

definition b64_value :: "char \<Rightarrow> byte option" where
  "b64_value c =
     (let n = (of_char c :: nat) in
      if 65 \<le> n \<and> n \<le> 90 then Some (of_nat (n - 65))
      else if 97 \<le> n \<and> n \<le> 122 then Some (of_nat (n - 71))
      else if 48 \<le> n \<and> n \<le> 57 then Some (of_nat (n + 4))
      else if n = 43 then Some 62
      else if n = 47 then Some 63
      else None)"

record a2b_state =
  quad_pos :: nat
  leftchar :: byte
  pads :: nat
  bin_data :: "byte list"

definition a2b_init :: a2b_state where
  "a2b_init = \<lparr>quad_pos = 0, leftchar = 0, pads = 0, bin_data = []\<rparr>"

text \<open>The \<^verbatim>\<open>switch (quad_pos)\<close> on one data character of value \<open>v < 64\<close>.\<close>
definition a2b_data :: "a2b_state \<Rightarrow> byte \<Rightarrow> a2b_state" where
  "a2b_data s v =
     (case quad_pos s of
        0 \<Rightarrow> s\<lparr>quad_pos := 1, leftchar := v\<rparr>
      | Suc 0 \<Rightarrow> s\<lparr>quad_pos := 2,
                   bin_data := bin_data s @ [push_bit 2 (leftchar s) OR drop_bit 4 v],
                   leftchar := v AND 0x0f\<rparr>
      | Suc (Suc 0) \<Rightarrow> s\<lparr>quad_pos := 3,
                   bin_data := bin_data s @ [push_bit 4 (leftchar s) OR drop_bit 2 v],
                   leftchar := v AND 0x03\<rparr>
      | _ \<Rightarrow> s\<lparr>quad_pos := 0, bin_data := bin_data s @ [push_bit 6 (leftchar s) OR v],
                   leftchar := 0\<rparr>)"

text \<open>
  The loop over the input; the flag is \<open>True\<close> when it left through
  \<^verbatim>\<open>goto done\<close> (a complete padded quantum). \<^verbatim>\<open>++pads\<close> is evaluated only when
  \<^verbatim>\<open>quad_pos >= 2\<close>, by the short-circuit \<^verbatim>\<open>&&\<close>.
\<close>
fun a2b_loop :: "a2b_state \<Rightarrow> string \<Rightarrow> a2b_state \<times> bool" where
  "a2b_loop s [] = (s, False)"
| "a2b_loop s (c # cs) =
     (if c = CHR ''='' then
        (if 2 \<le> quad_pos s then
           (let s' = s\<lparr>pads := Suc (pads s)\<rparr>
            in if 4 \<le> quad_pos s + pads s' then (s', True) else a2b_loop s' cs)
         else a2b_loop s cs)
      else (case b64_value c of
              None \<Rightarrow> a2b_loop s cs
            | Some v \<Rightarrow> a2b_loop (a2b_data (s\<lparr>pads := 0\<rparr>) v) cs))"

definition a2b_base64 :: "string \<Rightarrow> pyerr + byte list" where
  "a2b_base64 s =
     (case a2b_loop a2b_init s of
        (st, True) \<Rightarrow> Inr (bin_data st)
      | (st, False) \<Rightarrow> if quad_pos st \<noteq> 0 then Inl BinasciiError else Inr (bin_data st))"

definition b64decode :: "string \<Rightarrow> pyerr + byte list" where
  "b64decode s = (if list_all (\<lambda>c. of_char c < (128::nat)) s then a2b_base64 s else Inl ValueError)"

lemma a2b_data_quad_pos: "quad_pos s < 4 \<Longrightarrow> quad_pos (a2b_data s v) = Suc (quad_pos s) mod 4"
  by (auto simp: a2b_data_def split: nat.splits)

end
