(* ===== verification/Submission.thy ===== *)
theory Submission
  imports Upstream Base64
begin

text \<open>
  Job submission, \<^verbatim>\<open>POST /generations\<close> (\<^verbatim>\<open>videos.py\<close> lines 104--111 and
  126--248): the request form \<^verbatim>\<open>CreateVideoForm\<close>, the handler
  \<^verbatim>\<open>video_generations\<close> with its two guards, the resolution of defaults, the
  headers, the handling of \<^verbatim>\<open>input_reference\<close> that chooses between a multipart
  and a JSON request, the single upstream call, and the \<^verbatim>\<open>except\<close> clauses that
  turn an upstream failure into an \<^verbatim>\<open>HTTPException\<close>. The forwarding of user
  headers (\<^verbatim>\<open>include_user_info_headers\<close> of \<^verbatim>\<open>open_webui.utils.headers\<close>,
  outside the sources) is modelled from the spec: it adds the caller's name, id, email and
  role headers; the environment flag \<^verbatim>\<open>ENABLE_FORWARD_USER_INFO_HEADERS\<close> is
  the parameter \<open>fwd\<close>.
\<close>

record CreateVideoForm =
  form_model :: "string option"
  form_prompt :: string
  form_input_reference :: "string option"
  form_seconds :: "string option"
  form_size :: "string option"
  form_quality :: "string option"
  form_n :: int

type_synonym file_part = "string \<times> string \<times> byte list \<times> string"

definition include_user_info_headers :: "headers \<Rightarrow> user \<Rightarrow> headers" where
  "include_user_info_headers h u =
     dict_set ''X-OpenWebUI-User-Role'' (user_role u)
      (dict_set ''X-OpenWebUI-User-Email'' (user_email u)
        (dict_set ''X-OpenWebUI-User-Id'' (user_id u)
          (dict_set ''X-OpenWebUI-User-Name'' (user_name u) h)))"

definition unsupported_engine :: string where
  "unsupported_engine = ''Only OpenAI (Sora) video generation is currently supported.''"

definition key_not_configured :: string where
  "key_not_configured =
     ''Video generation API key is not configured. Please set it in Admin Settings > Videos.''"

text \<open>
  Lines 193--209: a truthy reference that starts with \<^verbatim>\<open>data:\<close> is split at the
  first comma (a missing comma is the \<^verbatim>\<open>ValueError\<close> of the tuple unpacking), its
  MIME type is the header up to the first \<^verbatim>\<open>;\<close> with the characters
  \<^verbatim>\<open>d a t :\<close> stripped from the left, its payload is base64-decoded, and the
  \<^verbatim>\<open>Content-Type\<close> header is deleted; a reference that starts with \<^verbatim>\<open>http\<close>
  becomes the JSON field \<^verbatim>\<open>input_reference\<close>; any other reference is ignored.
  The result is the headers, the data dict and the file parts.
\<close>
definition attach_reference ::
  "string option \<Rightarrow> headers \<Rightarrow> (string, json) pydict \<Rightarrow>
   pyerr + headers \<times> (string, json) pydict \<times> file_part list" where
  "attach_reference ref headers data =
     (case ref of
        None \<Rightarrow> Inr (headers, data, [])
      | Some r \<Rightarrow>
        (if \<not> truthy (JStr r) then Inr (headers, data, [])
         else if py_startswith r ''data:'' then
           (case py_split_max1 (CHR '','') r of
              [header, encoded] \<Rightarrow>
                (let mime_type = py_lstrip ''data:'' (hd (py_split (CHR '';'') header)) in
                 case b64decode encoded of
                   Inl e \<Rightarrow> Inl e
                 | Inr image_data \<Rightarrow>
                     (let files = [(''input_reference'', ''reference.png'', image_data, mime_type)] in
                      case dict_del ''Content-Type'' headers of
                        None \<Rightarrow> Inl KeyError
                      | Some headers' \<Rightarrow> Inr (headers', data, files)))
            | _ \<Rightarrow> Inl ValueError)
         else if py_startswith r ''http'' then
           Inr (headers, dict_set ''input_reference'' (JStr r) data, [])
         else Inr (headers, data, [])))"

text \<open>Lines 237--245: the message of an upstream error body \<^verbatim>\<open>{"error": {"message": ...}}\<close>,
  else \<^verbatim>\<open>str(e)\<close>; every exception of the inner \<^verbatim>\<open>try\<close> is swallowed.\<close>
definition error_detail :: "string \<Rightarrow> string + json \<Rightarrow> json" where
  "error_detail msg body =
     (case body of
        Inl _ \<Rightarrow> JStr msg
      | Inr error_data \<Rightarrow>
          (case py_in ''error'' error_data of
             Inr True \<Rightarrow>
               (case py_index error_data ''error'' of
                  Inr v \<Rightarrow> (case dict_get v ''message'' (JStr msg) of Inr d \<Rightarrow> d | Inl _ \<Rightarrow> JStr msg)
                | Inl _ \<Rightarrow> JStr msg)
           | _ \<Rightarrow> JStr msg))"

text \<open>Lines 237--248: the two \<^verbatim>\<open>except\<close> clauses of the outer \<^verbatim>\<open>try\<close>.\<close>
definition submit_except :: "json result \<Rightarrow> json result" where
  "submit_except r =
     (case r of
        Inr j \<Rightarrow> Inr j
      | Inl (HTTPError code msg body) \<Rightarrow> Inl (HTTPException code (error_detail msg body))
      | Inl e \<Rightarrow> Inl (HTTPException 500 (JStr (exc_str e))))"

text \<open>The request of lines 211--228: multipart when there are files, JSON otherwise.\<close>
definition submit_request ::
  "string \<Rightarrow> headers \<Rightarrow> (string, json) pydict \<Rightarrow> file_part list \<Rightarrow> outbound" where
  "submit_request base_url headers data files =
     \<lparr>out_method = POST, out_url = base_url @ ''/videos'', out_headers = headers, out_params = [],
      out_body = (if files \<noteq> [] then FormBody (JObj data) files else JsonBody (JObj data)),
      out_stream = False\<rparr>"

text \<open>Lines 176--182: the headers, before the reference is looked at.\<close>
definition submit_headers :: "string \<Rightarrow> bool \<Rightarrow> user \<Rightarrow> headers" where
  "submit_headers api_key fwd u =
     (let headers = [(''Authorization'', ''Bearer '' @ api_key), (''Content-Type'', ''application/json'')]
      in if fwd then include_user_info_headers headers u else headers)"

text \<open>Lines 160--174 and 185--191: each field is the form's value when truthy, else
  the configuration's (\<^verbatim>\<open>form_data.x or getattr(config, X, default)\<close>).\<close>
definition submit_data :: "app_config \<Rightarrow> CreateVideoForm \<Rightarrow> (string, json) pydict" where
  "submit_data c f =
     (let model = py_or (opt_json (form_model f))
                    (JStr (getattr (cfg_VIDEO_GENERATION_MODEL c) ''sora-2''));
          seconds = py_or (opt_json (form_seconds f))
                    (opt_json (getattr (cfg_VIDEO_DURATION c) (Some ''4'')));
          size = py_or (opt_json (form_size f))
                    (opt_json (getattr (cfg_VIDEO_SIZE c) (Some ''1920x1080'')));
          quality = py_or (opt_json (form_quality f))
                    (opt_json (getattr (cfg_VIDEO_QUALITY c) (Some ''standard'')))
      in [(''model'', model), (''prompt'', JStr (form_prompt f)),
          (''seconds'', seconds), (''size'', size), (''quality'', quality)])"

definition video_generations ::
  "app_config \<Rightarrow> bool \<Rightarrow> upstream \<Rightarrow> user \<Rightarrow> CreateVideoForm \<Rightarrow> json step" where
  "video_generations c fwd up u f st =
     (let engine = cfg_engine c in
      if engine \<noteq> ''openai'' then (Inl (HTTPException 400 (JStr unsupported_engine)), st)
      else
        (let api_key = cfg_api_key c in
         if api_key = [] then (Inl (HTTPException 400 (JStr key_not_configured)), st)
         else
           (let base_url = cfg_base_url c;
                headers = submit_headers api_key fwd u;
                data = submit_data c f
            in case attach_reference (form_input_reference f) headers data of
                 Inl e \<Rightarrow> (Inl (PyError e), st)
               | Inr (headers, data, files) \<Rightarrow>
                   (let (r, st') = request_json up (submit_request base_url headers data files) st
                    in (submit_except r, st')))))"

declare video_generations_def [handler_defs]

text \<open>Spec vocabulary: the reference is an inline \<^verbatim>\<open>data:\<close> URI.\<close>
definition is_data_ref :: "string option \<Rightarrow> bool" where
  "is_data_ref ref = (case ref of None \<Rightarrow> False | Some r \<Rightarrow> py_startswith r ''data:'')"

subsection \<open>Lemmas\<close>

lemma include_user_info_headers_content_type:
  "map_of (include_user_info_headers h u) ''Content-Type'' = map_of h ''Content-Type''"
  by (simp add: include_user_info_headers_def)

lemma submit_headers_content_type:
  "map_of (submit_headers k fwd u) ''Content-Type'' = Some ''application/json''"
  by (simp add: submit_headers_def include_user_info_headers_content_type Let_def)

lemma submit_request_simps [simp]:
  "out_body (submit_request b h d fs) = (if fs \<noteq> [] then FormBody (JObj d) fs else JsonBody (JObj d))"
  "out_headers (submit_request b h d fs) = h"
  "out_method (submit_request b h d fs) = POST"
  "out_url (submit_request b h d fs) = b @ ''/videos''"
  by (simp_all add: submit_request_def)

text \<open>A reference that is not a \<^verbatim>\<open>data:\<close> URI never raises and adds no file.\<close>
lemma attach_reference_not_data:
  "\<not> is_data_ref ref \<Longrightarrow>
   attach_reference ref h d =
     Inr (h, (case ref of
                Some r \<Rightarrow> if r \<noteq> [] \<and> py_startswith r ''http'' then dict_set ''input_reference'' (JStr r) d else d
              | None \<Rightarrow> d), [])"
  by (auto simp: attach_reference_def is_data_ref_def split: option.splits)

text \<open>A \<^verbatim>\<open>data:\<close> URI that is accepted gives one file part and drops \<^verbatim>\<open>Content-Type\<close>.\<close>
lemma attach_reference_data:
  assumes "is_data_ref ref" "attach_reference ref h d = Inr (h', d', fs)"
  shows "d' = d \<and> length fs = 1 \<and> map_of h' = (map_of h)(''Content-Type'' := None)"
  using assms
  by (auto simp: attach_reference_def is_data_ref_def Let_def map_of_dict_del
           split: option.splits if_splits list.splits sum.splits)

text \<open>The handler's shape: either no request at all, or the one submission request.\<close>
lemma video_generations_cases:
  assumes "video_generations c fwd up u f st = (r, st')"
  shows "st' = st \<or>
         (\<exists>h d fs. cfg_engine c = ''openai'' \<and> cfg_api_key c \<noteq> [] \<and>
            attach_reference (form_input_reference f) (submit_headers (cfg_api_key c) fwd u)
              (submit_data c f) = Inr (h, d, fs) \<and>
            request_json up (submit_request (cfg_base_url c) h d fs) st =
              (fst (request_json up (submit_request (cfg_base_url c) h d fs) st), st') \<and>
            r = submit_except (fst (request_json up (submit_request (cfg_base_url c) h d fs) st)))"
  using assms by (auto simp: video_generations_def Let_def split: if_splits sum.splits prod.splits)

lemma video_generations_prepared:
  assumes "cfg_engine c = ''openai''" "cfg_api_key c \<noteq> []"
    and "attach_reference (form_input_reference f) (submit_headers (cfg_api_key c) fwd u)
           (submit_data c f) = Inr (h, d, fs)"
  shows "video_generations c fwd up u f st =
           (submit_except (fst (request_json up (submit_request (cfg_base_url c) h d fs) st)),
            snd (request_json up (submit_request (cfg_base_url c) h d fs) st))"
  using assms by (simp add: video_generations_def Let_def split: prod.splits)

lemma video_generations_no_key:
  "cfg_api_key c = [] \<Longrightarrow> \<exists>d. video_generations c fwd up u f st = (Inl (HTTPException 400 d), st)"
  by (simp add: video_generations_def)

lemma video_generations_sent:
  assumes "video_generations c fwd up u f st = (r, st')"
  shows "st' = st \<or> (\<exists>rq. sent st' = sent st @ [rq] \<and> sent_at st' = sent_at st @ [clock st] \<and>
                         clock st \<le> clock st')"
  using video_generations_cases [OF assms] request_json_net by fastforce

lemma submit_headers_user_id:
  "fwd \<Longrightarrow> map_of (submit_headers k fwd u) ''X-OpenWebUI-User-Id'' = Some (user_id u)"
  by (simp add: submit_headers_def include_user_info_headers_def Let_def)

text \<open>With forwarding on, the submission request carries the caller's identity,
  whichever encoding it uses.\<close>
lemma video_generations_user_headers:
  assumes "video_generations c True up u f st = (r, st')" "sent st' = sent st @ [rq]"
  shows "map_of (out_headers rq) ''X-OpenWebUI-User-Id'' = Some (user_id u)"
proof -
  from video_generations_cases [OF assms(1)] assms(2) obtain h d fs where
    att: "attach_reference (form_input_reference f) (submit_headers (cfg_api_key c) True u)
            (submit_data c f) = Inr (h, d, fs)"
    and rj: "request_json up (submit_request (cfg_base_url c) h d fs) st =
               (fst (request_json up (submit_request (cfg_base_url c) h d fs) st), st')"
    by auto
  from request_json_net [OF rj] assms(2) have rq: "rq = submit_request (cfg_base_url c) h d fs"
    by simp
  have "map_of h ''X-OpenWebUI-User-Id'' = Some (user_id u)"
  proof (cases "is_data_ref (form_input_reference f)")
    case True
    from attach_reference_data [OF True att] show ?thesis by (simp add: submit_headers_user_id)
  next
    case False
    from attach_reference_not_data [OF False] att have "h = submit_headers (cfg_api_key c) True u"
      by simp
    then show ?thesis by (simp add: submit_headers_user_id)
  qed
  then show ?thesis by (simp add: rq)
qed

lemma submit_data_distinct [simp]: "distinct (map fst (submit_data c f))"
  by (simp add: submit_data_def Let_def)

lemma error_detail_not_json [simp]: "error_detail m (Inl x) = JStr m"
  by (simp add: error_detail_def)

subsection \<open>Properties\<close>

text \<open>
  C4. Exactly one encoding per submission: the request sent is multipart, with
  exactly one file part and no \<^verbatim>\<open>Content-Type\<close> header (the client library
  sets the boundary), exactly when the reference is an inline \<^verbatim>\<open>data:\<close> URI; in
  every other case it is a JSON body sent with \<^verbatim>\<open>Content-Type: application/json\<close>.
\<close>
theorem video_generations_encoding:
  assumes run: "video_generations c fwd up u f st = (r, st')"
    and one: "sent st' = sent st @ [rq]"
  shows "(case out_body rq of
            FormBody d fs \<Rightarrow> is_data_ref (form_input_reference f) \<and> length fs = 1 \<and>
                             map_of (out_headers rq) ''Content-Type'' = None
          | JsonBody d \<Rightarrow> \<not> is_data_ref (form_input_reference f) \<and>
                             map_of (out_headers rq) ''Content-Type'' = Some ''application/json''
          | NoBody \<Rightarrow> False)"
proof -
  from video_generations_cases [OF run] one obtain h d fs where
    att: "attach_reference (form_input_reference f) (submit_headers (cfg_api_key c) fwd u)
            (submit_data c f) = Inr (h, d, fs)"
    and rj: "request_json up (submit_request (cfg_base_url c) h d fs) st =
               (fst (request_json up (submit_request (cfg_base_url c) h d fs) st), st')"
    by auto
  from request_json_net [OF rj] one have rq: "rq = submit_request (cfg_base_url c) h d fs"
    by simp
  show ?thesis
  proof (cases "is_data_ref (form_input_reference f)")
    case True
    from attach_reference_data [OF True att]
    have "length fs = 1" "map_of h ''Content-Type'' = None" by auto
    with True show ?thesis by (auto simp: rq)
  next
    case False
    from attach_reference_not_data [OF False] att
    have "h = submit_headers (cfg_api_key c) fwd u" "fs = []" by auto
    with False show ?thesis by (simp add: rq submit_headers_content_type)
  qed
qed

text \<open>
  C9. A reference that is a URL is passed through verbatim as the JSON field
  \<^verbatim>\<open>input_reference\<close>; the submission is the only request sent (nothing is
  downloaded).
\<close>
theorem video_generations_url_reference:
  assumes run: "video_generations c fwd up u f st = (r, st')"
    and ref: "form_input_reference f = Some url" "py_startswith url ''http''"
    and guards: "cfg_engine c = ''openai''" "cfg_api_key c \<noteq> []"
  shows "\<exists>rq d. sent st' = sent st @ [rq] \<and> out_body rq = JsonBody (JObj d) \<and>
               obj_lookup d ''input_reference'' = Some (JStr url)"
proof -
  have "\<not> py_startswith url ''data:''"
    using ref(2) prefix_same_cases [of "''http''" url "''data:''"] by (auto simp: py_startswith_prefix)
  moreover from ref(2) have "url \<noteq> []" by auto
  ultimately have nd: "\<not> is_data_ref (form_input_reference f)" and ne: "url \<noteq> []"
    using ref(1) by (auto simp: is_data_ref_def)
  define d where "d = dict_set ''input_reference'' (JStr url) (submit_data c f)"
  define rq where "rq = submit_request (cfg_base_url c) (submit_headers (cfg_api_key c) fwd u) d []"
  from attach_reference_not_data [OF nd] ref ne
  have "attach_reference (form_input_reference f) (submit_headers (cfg_api_key c) fwd u)
          (submit_data c f) = Inr (submit_headers (cfg_api_key c) fwd u, d, [])"
    by (simp add: d_def)
  from video_generations_prepared [OF guards this] run
  have "request_json up rq st = (fst (request_json up rq st), st')"
    by (simp add: rq_def prod_eq_iff)
  from request_json_net [OF this] have "sent st' = sent st @ [rq]" by simp
  moreover have "obj_lookup d ''input_reference'' = Some (JStr url)"
    by (simp add: d_def obj_lookup_distinct distinct_dict_set)
  ultimately show ?thesis by (auto simp: rq_def)
qed

text \<open>
  C10. An upstream refusal of the submission (4xx or 5xx) is answered with the
  upstream's own status code; its detail is the upstream's message as extracted by
  \<open>error_detail\<close>, falling back to \<^verbatim>\<open>str(e)\<close>.
\<close>
theorem video_generations_upstream_error:
  assumes guards: "cfg_engine c = ''openai''" "cfg_api_key c \<noteq> []"
    and att: "attach_reference (form_input_reference f) (submit_headers (cfg_api_key c) fwd u)
                (submit_data c f) = Inr (h, d, fs)"
    and rep: "reply up (length (sent st)) (submit_request (cfg_base_url c) h d fs) = Resp r"
    and code: "400 \<le> status_code r" "status_code r < 600"
  shows "\<exists>m. fst (video_generations c fwd up u f st) =
               Inl (HTTPException (status_code r) (error_detail m (resp_json r)))"
proof -
  from request_json_http_error [OF rep code] obtain m where
    "fst (request_json up (submit_request (cfg_base_url c) h d fs) st) =
       Inl (HTTPError (status_code r) m (resp_json r))"
    by auto
  with video_generations_prepared [OF guards att] show ?thesis
    by (auto simp: submit_except_def)
qed

text \<open>
  C11. The detail extracted from an upstream error body
  \<^verbatim>\<open>{"error": {"message": m}}\<close> is \<open>m\<close>.
\<close>
theorem error_detail_message:
  "obj_lookup kvs ''error'' = Some (JObj ekvs) \<Longrightarrow> obj_lookup ekvs ''message'' = Some m \<Longrightarrow>
   error_detail s (Inr (JObj kvs)) = m"
  by (simp add: error_detail_def py_in_def py_index_def)

text \<open>
  C16. The MIME type of an inline reference is computed with \<^verbatim>\<open>lstrip("data:")\<close>,
  which strips the characters d, a, t and : rather than the prefix. For every
  reference \<^verbatim>\<open>data:<m>;base64,<enc>\<close> whose payload decodes, the single file part
  carries the decoded bytes and the MIME type \<open>m\<close> with all its leading d, a, t
  and : removed; it is \<open>m\<close> itself exactly when \<open>m\<close> is empty or does not start
  with one of them (\<^verbatim>\<open>image/png\<close> survives, \<^verbatim>\<open>application/pdf\<close> becomes
  \<^verbatim>\<open>pplication/pdf\<close>, \<^verbatim>\<open>text/plain\<close> becomes \<^verbatim>\<open>ext/plain\<close>).
\<close>
theorem data_uri_mime_lstrip:
  assumes "CHR '','' \<notin> set m" "CHR '';'' \<notin> set m" "b64decode enc = Inr bs"
    and "map_of h ''Content-Type'' \<noteq> None"
  shows "\<exists>h' mime. attach_reference (Some (''data:'' @ m @ '';base64,'' @ enc)) h d =
                     Inr (h', d, [(''input_reference'', ''reference.png'', bs, mime)]) \<and>
                   mime = dropWhile (\<lambda>x. x \<in> set ''data:'') m \<and>
                   (mime = m \<longleftrightarrow> m = [] \<or> hd m \<notin> set ''data:'')"
proof -
  from dict_del_Some [OF assms(4)] obtain h' where h': "dict_del ''Content-Type'' h = Some h'" by blast
  have split: "py_split_max1 (CHR '','') (''data:'' @ m @ '';base64,'' @ enc) = [''data:'' @ m @ '';base64'', enc]"
    using assms(1) by (simp add: py_split_max1_def takeWhile_append dropWhile_append)
  have hdr: "hd (py_split (CHR '';'') (''data:'' @ m @ '';base64'')) = ''data:'' @ m"
    using assms(2) by (simp only: hd_py_split) (simp add: takeWhile_append)
  have strip: "py_lstrip ''data:'' (''data:'' @ m) = dropWhile (\<lambda>x. x \<in> set ''data:'') m"
    by (simp add: py_lstrip_def)
  show ?thesis
    using split hdr strip h' assms(3) py_lstrip_eq_self [of "''data:''" m]
    by (simp add: attach_reference_def Let_def py_startswith_def py_lstrip_def del: py_split.simps)
qed

text \<open>
  C17. An inline reference without a comma makes the tuple unpacking raise
  \<^verbatim>\<open>ValueError\<close> before the \<^verbatim>\<open>try\<close>: the route fails (status 500) and
  no request is sent.
\<close>
theorem video_generations_data_uri_without_comma:
  "cfg_engine c = ''openai'' \<Longrightarrow> cfg_api_key c \<noteq> [] \<Longrightarrow> form_input_reference f = Some r \<Longrightarrow>
   py_startswith r ''data:'' \<Longrightarrow> CHR '','' \<notin> set r \<Longrightarrow>
   video_generations c fwd up u f st = (Inl (PyError ValueError), st)"
  by (auto simp: video_generations_def attach_reference_def py_split_max1_def py_startswith_def Let_def)

text \<open>
  C20. Submission never consults \<^verbatim>\<open>ENABLE_VIDEO_GENERATION\<close>: the route behaves
  the same whether generation is enabled or not.
\<close>
theorem video_generations_ignores_enable_flag:
  "video_generations (c\<lparr>cfg_ENABLE_VIDEO_GENERATION := x\<rparr>) fwd up u f st =
   video_generations c fwd up u f st"
proof -
  have "cfg_engine (c\<lparr>cfg_ENABLE_VIDEO_GENERATION := x\<rparr>) = cfg_engine c"
    "cfg_api_key (c\<lparr>cfg_ENABLE_VIDEO_GENERATION := x\<rparr>) = cfg_api_key c"
    "cfg_base_url (c\<lparr>cfg_ENABLE_VIDEO_GENERATION := x\<rparr>) = cfg_base_url c"
    "submit_data (c\<lparr>cfg_ENABLE_VIDEO_GENERATION := x\<rparr>) f = submit_data c f"
    by (simp_all add: cfg_engine_def cfg_api_key_def cfg_base_url_def submit_data_def)
  then show ?thesis by (simp add: video_generations_def Let_def)
qed

text \<open>
  C21. The replicate count \<^verbatim>\<open>n\<close> of the form is never forwarded: the route behaves
  the same for every value of it.
\<close>
theorem video_generations_ignores_n:
  "video_generations c fwd up u (f\<lparr>form_n := k\<rparr>) st = video_generations c fwd up u f st"
  by (simp add: video_generations_def submit_data_def Let_def)

text \<open>
  C23. A submission sends at most one request to the upstream.
\<close>
theorem video_generations_single_request:
  "sent (snd (video_generations c fwd up u f st)) = sent st \<or>
   (\<exists>rq. sent (snd (video_generations c fwd up u f st)) = sent st @ [rq])"
  using video_generations_sent [of c fwd up u f st "fst (video_generations c fwd up u f st)"
                                   "snd (video_generations c fwd up u f st)"]
  by auto

text \<open>
  C29. A reference that is neither a \<^verbatim>\<open>data:\<close> URI nor starts with
  \<^verbatim>\<open>http\<close> (raw base64, \<^verbatim>\<open>ftp://\<close>, a file path) is silently dropped: the
  route behaves as if no reference had been given.
\<close>
theorem video_generations_other_reference_dropped:
  "form_input_reference f = Some r \<Longrightarrow> \<not> py_startswith r ''data:'' \<Longrightarrow>
   \<not> py_startswith r ''http'' \<Longrightarrow>
   video_generations c fwd up u f st =
   video_generations c fwd up u (f\<lparr>form_input_reference := None\<rparr>) st"
proof -
  assume r: "form_input_reference f = Some r" "\<not> py_startswith r ''data:''" "\<not> py_startswith r ''http''"
  then have "attach_reference (form_input_reference f) h d = attach_reference None h d" for h d
    by (simp add: attach_reference_def)
  moreover have "submit_data c (f\<lparr>form_input_reference := None\<rparr>) = submit_data c f"
    by (simp add: submit_data_def)
  ultimately show ?thesis by (simp add: video_generations_def Let_def)
qed

end
