(* ===== verification/Poller.thy ===== *)
theory Poller
  imports Submission
begin

text \<open>
  The synchronous facade \<^verbatim>\<open>POST /generations/sync\<close> (\<^verbatim>\<open>videos.py\<close> lines
  410--464), which holds the spec's Status Poller: submit once through
  \<^verbatim>\<open>video_generations\<close>, read the job id, then poll \<^verbatim>\<open>get_video\<close> until the
  status is \<^verbatim>\<open>completed\<close> (answer with the content location), \<^verbatim>\<open>failed\<close>
  (HTTP 500), or the wall clock passes the deadline (HTTP 408). The
  \<^verbatim>\<open>while\<close> loop is a \<^theory_text>\<open>partial_function (option)\<close>: \<open>None\<close> is a loop
  that never returns, which happens when neither the poll interval nor the
  upstream's latency lets the clock advance. \<^verbatim>\<open>asyncio.sleep(d)\<close> advances the
  clock by \<open>d\<close> seconds, and by nothing when \<open>d \<le> 0\<close>. Besides the
  loop's general properties (termination, deadline bounds, spacing, the branch
  taken on each kind of answer) the theory gives the exact schedule for a provider
  without latency: \<open>polled\<close> is the state after \<open>k\<close> pending rounds and
  \<open>poll_loop_rounds\<close> unfolds those rounds.
\<close>

definition sleep :: "int \<Rightarrow> net \<Rightarrow> net" where
  "sleep d st = st\<lparr>clock := clock st + max 0 (d * 1000)\<rparr>"

definition content_url :: "json \<Rightarrow> string" where
  "content_url video_id = ''/api/v1/videos/'' @ py_str video_id @ ''/content''"

text \<open>Lines 443--450: the answer once the job is complete.\<close>
definition completed_response :: "json \<Rightarrow> json \<Rightarrow> json result" where
  "completed_response video_id status =
     (case (dict_get status ''model'' JNull, dict_get status ''size'' JNull,
            dict_get status ''seconds'' JNull) of
        (Inr m, Inr sz, Inr sec) \<Rightarrow>
          Inr (JObj [(''id'', video_id), (''status'', JStr ''completed''),
                     (''url'', JStr (content_url video_id)),
                     (''model'', m), (''size'', sz), (''seconds'', sec)])
      | _ \<Rightarrow> Inl (PyError AttributeError))"

text \<open>Lines 452--455: the detail of a provider-reported failure.\<close>
definition failed_response :: "json \<Rightarrow> json result" where
  "failed_response status =
     (case dict_get status ''error'' (JStr ''Unknown error'') of
        Inr e \<Rightarrow> Inl (HTTPException 500 (JStr (''Video generation failed: '' @ py_str e)))
      | Inl e \<Rightarrow> Inl (PyError e))"

text \<open>Lines 461--464.\<close>
definition timeout_detail :: "int \<Rightarrow> json \<Rightarrow> string" where
  "timeout_detail timeout video_id =
     ''Video generation timed out after '' @ int_str timeout @ '' seconds. Video ID: '' @
     py_str video_id @ ''. You can check status at /api/v1/videos/'' @ py_str video_id"

text \<open>Lines 438--458: \<^verbatim>\<open>while time.time() - start_time < timeout\<close>.\<close>
partial_function (option) poll_loop ::
  "app_config \<Rightarrow> upstream \<Rightarrow> json \<Rightarrow> int \<Rightarrow> int \<Rightarrow> int \<Rightarrow> net \<Rightarrow> (json result \<times> net) option"
where
  "poll_loop c up video_id timeout poll_interval start_time st =
     (if clock st - start_time < timeout * 1000 then
        (case get_video c up (py_str video_id) st of
           (Inl e, st') \<Rightarrow> Some (Inl e, st')
         | (Inr status, st') \<Rightarrow>
             (case dict_get status ''status'' JNull of
                Inl e \<Rightarrow> Some (Inl (PyError e), st')
              | Inr s \<Rightarrow>
                  if s = JStr ''completed'' then Some (completed_response video_id status, st')
                  else if s = JStr ''failed'' then Some (failed_response status, st')
                  else poll_loop c up video_id timeout poll_interval start_time
                         (sleep poll_interval st')))
      else Some (Inl (HTTPException 408 (JStr (timeout_detail timeout video_id))), st))"

definition video_id_missing :: string where
  "video_id_missing = ''Failed to get video ID from response''"

definition video_generations_sync ::
  "app_config \<Rightarrow> bool \<Rightarrow> upstream \<Rightarrow> user \<Rightarrow> CreateVideoForm \<Rightarrow> int \<Rightarrow> int \<Rightarrow> net \<Rightarrow>
   (json result \<times> net) option" where
  "video_generations_sync c fwd up u f timeout poll_interval st =
     (case video_generations c fwd up u f st of
        (Inl e, sa) \<Rightarrow> Some (Inl e, sa)
      | (Inr result, sa) \<Rightarrow>
          (case dict_get result ''id'' JNull of
             Inl e \<Rightarrow> Some (Inl (PyError e), sa)
           | Inr video_id \<Rightarrow>
               if \<not> truthy video_id
               then Some (Inl (HTTPException 500 (JStr video_id_missing)), sa)
               else poll_loop c up video_id timeout poll_interval (clock sa) sa))"

declare video_generations_sync_def [handler_defs]

text \<open>A status answer that keeps the loop polling: a successful JSON object whose
  \<^verbatim>\<open>status\<close> is neither \<^verbatim>\<open>completed\<close> nor \<^verbatim>\<open>failed\<close> (a missing status
  reads as \<^verbatim>\<open>None\<close> and keeps it polling too).\<close>
definition pending_reply :: "http_outcome \<Rightarrow> bool" where
  "pending_reply ans =
     (case ans of
        ConnFailure m \<Rightarrow> False
      | Resp r \<Rightarrow> status_code r < 400 \<and>
          (case resp_json r of
             Inr (JObj kvs) \<Rightarrow> obj_lookup kvs ''status'' \<noteq> Some (JStr ''completed'') \<and>
                               obj_lookup kvs ''status'' \<noteq> Some (JStr ''failed'')
           | _ \<Rightarrow> False))"

text \<open>The network state after \<open>k\<close> rounds of the loop that each send \<open>rq\<close> with no
  latency and then sleep \<open>P\<close> seconds.\<close>
primrec polled :: "outbound \<Rightarrow> int \<Rightarrow> nat \<Rightarrow> net \<Rightarrow> net" where
  "polled rq P 0 st = st"
| "polled rq P (Suc k) st =
     polled rq P k (sleep P (st\<lparr>sent := sent st @ [rq], sent_at := sent_at st @ [clock st]\<rparr>))"

text \<open>Spec vocabulary: consecutive times at least \<open>d\<close> apart.\<close>
fun spaced :: "int \<Rightarrow> int list \<Rightarrow> bool" where
  "spaced d (x # y # zs) = (x + d \<le> y \<and> spaced d (y # zs))"
| "spaced d _ = True"

subsection \<open>Lemmas\<close>

lemma sleep_clock [simp]: "clock (sleep d st) = clock st + max 0 (d * 1000)"
  and sleep_sent [simp]: "sent (sleep d st) = sent st"
  and sleep_sent_at [simp]: "sent_at (sleep d st) = sent_at st"
  by (simp_all add: sleep_def)

lemma spaced_Cons: "spaced d ts \<Longrightarrow> list_all (\<lambda>t. x + d \<le> t) ts \<Longrightarrow> spaced d (x # ts)"
  by (cases ts) auto

text \<open>One status read: either nothing was sent, or the status request, at the current time.\<close>
lemma get_video_net:
  assumes "get_video c up vid st = (r, st')"
  shows "(st' = st) \<or>
         (sent st' = sent st @ [status_request c vid] \<and> sent_at st' = sent_at st @ [clock st] \<and>
          clock st' = clock st + int (latency up (length (sent st))))"
proof (cases "cfg_api_key c = []")
  case True
  with assms show ?thesis by (simp add: get_video_def)
next
  case False
  with assms have "request_json up (status_request c vid) st =
      (fst (request_json up (status_request c vid) st), st')"
    by (simp add: get_video_eq prod_eq_iff)
  from request_json_net [OF this] show ?thesis by simp
qed

lemma get_video_not_408: "fst (get_video c up vid st) \<noteq> Inl (HTTPException 408 d)"
  by (auto simp: get_video_def catch_500_def split: prod.splits sum.splits)

lemma completed_response_not_408: "completed_response vid s \<noteq> Inl (HTTPException 408 d)"
  by (auto simp: completed_response_def split: sum.splits)

lemma failed_response_not_408: "failed_response s \<noteq> Inl (HTTPException 408 d)"
  by (auto simp: failed_response_def split: sum.splits)

lemma poll_loop_deadline:
  "\<not> clock st - start < T * 1000 \<Longrightarrow>
   poll_loop c up vid T P start st = Some (Inl (HTTPException 408 (JStr (timeout_detail T vid))), st)"
  by (simp add: poll_loop.simps)

lemma poll_loop_poll:
  "clock st - start < T * 1000 \<Longrightarrow>
   poll_loop c up vid T P start st =
     (case get_video c up (py_str vid) st of
        (Inl e, st') \<Rightarrow> Some (Inl e, st')
      | (Inr status, st') \<Rightarrow>
          (case dict_get status ''status'' JNull of
             Inl e \<Rightarrow> Some (Inl (PyError e), st')
           | Inr s \<Rightarrow>
               if s = JStr ''completed'' then Some (completed_response vid status, st')
               else if s = JStr ''failed'' then Some (failed_response status, st')
               else poll_loop c up vid T P start (sleep P st')))"
  by (simp add: poll_loop.simps [of c up vid T P start st])

text \<open>One round of the loop: it stops after the read (never with a timeout), or it
  sleeps and goes round again.\<close>
lemma poll_loop_round:
  assumes run: "poll_loop c up vid T P start st = Some (r, st')"
    and live: "clock st - start < T * 1000"
    and gv: "get_video c up (py_str vid) st = (x, sa)"
  shows "(st' = sa \<and> (\<forall>d. r \<noteq> Inl (HTTPException 408 d))) \<or>
         poll_loop c up vid T P start (sleep P sa) = Some (r, st')"
  using run get_video_not_408 [of c up "py_str vid" st] completed_response_not_408 failed_response_not_408
  by (auto simp: poll_loop_poll [OF live] gv split: sum.splits if_splits)

lemma poll_loop_terminates:
  assumes "0 < P"
  shows "\<exists>r. poll_loop c up vid T P start st = Some r"
proof (induction "nat (start + T * 1000 - clock st)" arbitrary: st rule: less_induct)
  case less
  show ?case
  proof (cases "clock st - start < T * 1000")
    case False
    then show ?thesis by (simp add: poll_loop_deadline)
  next
    case True
    obtain r st' where gv: "get_video c up (py_str vid) st = (r, st')" by fastforce
    from get_video_net [OF gv] have mono: "clock st \<le> clock st'" by auto
    have "nat (start + T * 1000 - clock (sleep P st')) < nat (start + T * 1000 - clock st)"
      using True mono assms by simp
    from less [OF this] obtain r' where "poll_loop c up vid T P start (sleep P st') = Some r'"
      by blast
    with True gv show ?thesis by (simp add: poll_loop_poll split: sum.splits)
  qed
qed

lemma poll_loop_timeout_bounds:
  assumes "poll_loop c up vid T P start st = Some (Inl (HTTPException 408 d), st')"
    and "0 < P" and lat: "\<forall>n. latency up n \<le> L"
    and "clock st - start < T * 1000 + int L + P * 1000"
  shows "d = JStr (timeout_detail T vid) \<and> T * 1000 \<le> clock st' - start \<and>
         clock st' - start < T * 1000 + int L + P * 1000"
  using assms(1,4)
proof (induction "nat (start + T * 1000 - clock st)" arbitrary: st rule: less_induct)
  case less
  show ?case
  proof (cases "clock st - start < T * 1000")
    case False
    with less.prems show ?thesis by (simp add: poll_loop_deadline)
  next
    case True
    obtain x sa where gv: "get_video c up (py_str vid) st = (x, sa)" by fastforce
    from poll_loop_round [OF less.prems(1) True gv]
    have rec: "poll_loop c up vid T P start (sleep P sa) = Some (Inl (HTTPException 408 d), st')"
      by auto
    from get_video_net [OF gv] lat have c1: "clock st \<le> clock sa" "clock sa \<le> clock st + int L"
      by (auto intro: order_trans [OF _ of_nat_mono])
    have "nat (start + T * 1000 - clock (sleep P sa)) < nat (start + T * 1000 - clock st)"
      using True c1 assms(2) by simp
    moreover have "clock (sleep P sa) - start < T * 1000 + int L + P * 1000"
      using True c1 assms(2) by simp
    ultimately show ?thesis using less.hyps rec by blast
  qed
qed

lemma poll_loop_spacing:
  assumes "poll_loop c up vid T P start st = Some (r, st')" and "0 < P"
  shows "\<exists>ts. sent_at st' = sent_at st @ ts \<and> spaced (P * 1000) ts \<and> list_all (\<lambda>t. clock st \<le> t) ts"
  using assms(1)
proof (induction "nat (start + T * 1000 - clock st)" arbitrary: st rule: less_induct)
  case less
  show ?case
  proof (cases "clock st - start < T * 1000")
    case False
    with less.prems show ?thesis by (simp add: poll_loop_deadline)
  next
    case True
    obtain x sa where gv: "get_video c up (py_str vid) st = (x, sa)" by fastforce
    from get_video_net [OF gv]
    have net: "sa = st \<or> (sent_at sa = sent_at st @ [clock st] \<and> clock st \<le> clock sa)"
      by auto
    from poll_loop_round [OF less.prems True gv]
    show ?thesis
    proof
      assume "st' = sa \<and> (\<forall>d. r \<noteq> Inl (HTTPException 408 d))"
      with net show ?thesis by auto
    next
      assume rec: "poll_loop c up vid T P start (sleep P sa) = Some (r, st')"
      have "nat (start + T * 1000 - clock (sleep P sa)) < nat (start + T * 1000 - clock st)"
        using True net assms(2) by auto
      from less.hyps [OF this rec] obtain ts where
        ts: "sent_at st' = sent_at sa @ ts" "spaced (P * 1000) ts"
            "list_all (\<lambda>t. clock (sleep P sa) \<le> t) ts"
        by auto
      from net show ?thesis
      proof
        assume "sa = st"
        with ts assms(2) show ?thesis by (auto simp: list_all_iff)
      next
        assume n: "sent_at sa = sent_at st @ [clock st] \<and> clock st \<le> clock sa"
        with ts assms(2) have "list_all (\<lambda>t. clock st + P * 1000 \<le> t) ts"
          by (auto simp: list_all_iff)
        with ts n have "spaced (P * 1000) (clock st # ts)" by (simp add: spaced_Cons)
        with ts n assms(2) show ?thesis by (auto simp: list_all_iff)
      qed
    qed
  qed
qed

lemma poll_loop_pending:
  assumes "clock st - start < T * 1000" "cfg_api_key c \<noteq> []"
    and "pending_reply (reply up (length (sent st)) (status_request c (py_str vid)))"
  shows "poll_loop c up vid T P start st =
           poll_loop c up vid T P start (sleep P (snd (http_call up (status_request c (py_str vid)) st)))"
  using assms
  by (auto simp: poll_loop_poll get_video_eq request_json_ok pending_reply_def
           split: http_outcome.splits sum.splits json.splits option.splits)

lemma polled_sent: "sent (polled rq P k st) = sent st @ replicate k rq"
  by (induction k arbitrary: st) (simp_all add: sleep_def replicate_append_same)

lemma polled_clock: "0 \<le> P \<Longrightarrow> clock (polled rq P k st) = clock st + int k * (P * 1000)"
  by (induction k arbitrary: st) (simp_all add: sleep_def algebra_simps)

lemma polled_sent_at:
  "0 \<le> P \<Longrightarrow>
   sent_at (polled rq P k st) = sent_at st @ map (\<lambda>i. clock st + int i * (P * 1000)) [0..<k]"
proof (induction k arbitrary: st)
  case 0
  then show ?case by simp
next
  case (Suc k)
  then show ?case
    by (simp add: sleep_def upt_conv_Cons map_Suc_upt [symmetric] comp_def algebra_simps
             del: upt_Suc)
qed

text \<open>With no latency a call only logs the request and its send time.\<close>
lemma http_call_no_latency:
  "latency up (length (sent st)) = 0 \<Longrightarrow>
   snd (http_call up rq st) = st\<lparr>sent := sent st @ [rq], sent_at := sent_at st @ [clock st]\<rparr>"
  by (simp add: http_call_snd)

text \<open>\<open>k\<close> pending answers, all read before the deadline, unfold into \<open>k\<close> rounds.\<close>
lemma poll_loop_rounds:
  assumes lat: "\<forall>n. latency up n = 0" and P: "0 \<le> P" and key: "cfg_api_key c \<noteq> []"
    and pend: "\<forall>i<k. pending_reply (reply up (length (sent st) + i) (status_request c (py_str vid)))"
    and live: "\<forall>i<k. clock st - start + int i * (P * 1000) < T * 1000"
  shows "poll_loop c up vid T P start st =
           poll_loop c up vid T P start (polled (status_request c (py_str vid)) P k st)"
  using pend live
proof (induction k arbitrary: st)
  case 0
  then show ?case by simp
next
  case (Suc k)
  let ?rq = "status_request c (py_str vid)"
  let ?sa = "sleep P (st\<lparr>sent := sent st @ [?rq], sent_at := sent_at st @ [clock st]\<rparr>)"
  have "poll_loop c up vid T P start st = poll_loop c up vid T P start ?sa"
    using poll_loop_pending [OF _ key, of st start T up vid P] Suc.prems
      http_call_no_latency [of up st ?rq] lat
    by fastforce
  moreover have "poll_loop c up vid T P start ?sa = poll_loop c up vid T P start (polled ?rq P k ?sa)"
  proof (rule Suc.IH)
    show "\<forall>i<k. pending_reply (reply up (length (sent ?sa) + i) ?rq)"
      using Suc.prems(1) by (auto simp: sleep_def)
    show "\<forall>i<k. clock ?sa - start + int i * (P * 1000) < T * 1000"
    proof (intro allI impI)
      fix i assume "i < k"
      with Suc.prems(2) have "clock st - start + int (Suc i) * (P * 1000) < T * 1000" by blast
      with P show "clock ?sa - start + int i * (P * 1000) < T * 1000"
        by (simp add: sleep_def algebra_simps)
    qed
  qed
  ultimately show ?case by simp
qed

subsection \<open>Properties\<close>

text \<open>
  C1. The synchronous facade always returns when the poll interval is positive,
  whatever the upstream answers and however long its calls take: the loop's
  remaining time budget shrinks by at least one interval per round.
\<close>
theorem video_generations_sync_returns:
  "0 < P \<Longrightarrow> \<exists>r. video_generations_sync c fwd up u f T P st = Some r"
  using poll_loop_terminates [of P c up _ T "clock (snd (video_generations c fwd up u f st))"]
  by (auto simp: video_generations_sync_def split: prod.splits sum.splits)

text \<open>
  C2. A poller timeout happens at or after the deadline and before the deadline plus
  one poll interval plus the longest upstream latency, measured from the end of the
  submission; its 408 detail names the job id, so the caller can resume polling.
\<close>
theorem video_generations_sync_timeout:
  assumes sub: "video_generations c fwd up u f st = (Inr res, sa)"
    and id: "dict_get res ''id'' JNull = Inr vid" "truthy vid"
    and run: "video_generations_sync c fwd up u f T P st = Some (Inl (HTTPException 408 d), st')"
    and P: "0 < P" and T: "0 \<le> T" and lat: "\<forall>n. latency up n \<le> L"
  shows "d = JStr (timeout_detail T vid) \<and> sublist (py_str vid) (timeout_detail T vid) \<and>
         T * 1000 \<le> clock st' - clock sa \<and> clock st' - clock sa < T * 1000 + int L + P * 1000"
proof -
  from run sub id have loop: "poll_loop c up vid T P (clock sa) sa = Some (Inl (HTTPException 408 d), st')"
    by (simp add: video_generations_sync_def)
  have "clock sa - clock sa < T * 1000 + int L + P * 1000" using P T by simp
  from poll_loop_timeout_bounds [OF loop P lat this] have b:
    "d = JStr (timeout_detail T vid) \<and> T * 1000 \<le> clock st' - clock sa \<and>
     clock st' - clock sa < T * 1000 + int L + P * 1000" .
  have "sublist (py_str vid) (timeout_detail T vid)"
    unfolding timeout_detail_def
    by (metis append.assoc sublist_appendI)
  with b show ?thesis by simp
qed

text \<open>
  C3. A provider-reported failure ends the loop at once: the poll that reads
  \<^verbatim>\<open>failed\<close> is the last request sent, and the answer is a 500 whose detail
  carries the provider's \<^verbatim>\<open>error\<close> (or \<^verbatim>\<open>Unknown error\<close>).
\<close>
theorem poll_loop_failed_stops:
  assumes "clock st - start < T * 1000" "cfg_api_key c \<noteq> []"
    and "reply up (length (sent st)) (status_request c (py_str vid)) = Resp r"
    and "status_code r < 400" "resp_json r = Inr (JObj kvs)"
    and "obj_lookup kvs ''status'' = Some (JStr ''failed'')"
  shows "poll_loop c up vid T P start st =
           Some (Inl (HTTPException 500 (JStr (''Video generation failed: '' @
                   py_str (case obj_lookup kvs ''error'' of None \<Rightarrow> JStr ''Unknown error'' | Some e \<Rightarrow> e)))),
                 snd (http_call up (status_request c (py_str vid)) st))"
  using assms
  by (simp add: poll_loop_poll get_video_eq request_json_ok failed_response_def split: option.splits)

text \<open>
  C6. The polling schedule until completion: when the provider answers \<open>k\<close> pending
  statuses and then \<^verbatim>\<open>completed\<close>, with no latency and \<open>k * P < T\<close>, the loop
  answers the completed job after exactly \<open>k + 1\<close> status requests, sent at
  \<open>start\<close>, \<open>start + P\<close>, ..., \<open>start + k * P\<close> seconds.
\<close>
theorem poll_loop_pending_then_completed:
  assumes lat: "\<forall>n. latency up n = 0" and P: "0 < P" and key: "cfg_api_key c \<noteq> []"
    and start: "clock st = start" and budget: "int k * P < T"
    and pend: "\<forall>i<k. pending_reply (reply up (length (sent st) + i) (status_request c (py_str vid)))"
    and fin: "reply up (length (sent st) + k) (status_request c (py_str vid)) = Resp r"
      "status_code r < 400" "resp_json r = Inr (JObj kvs)"
      "obj_lookup kvs ''status'' = Some (JStr ''completed'')"
  shows "\<exists>st'. poll_loop c up vid T P start st = Some (completed_response vid (JObj kvs), st') \<and>
           sent st' = sent st @ replicate (Suc k) (status_request c (py_str vid)) \<and>
           sent_at st' = sent_at st @ map (\<lambda>i. start + int i * (P * 1000)) [0..<Suc k]"
proof -
  let ?rq = "status_request c (py_str vid)"
  let ?sk = "polled ?rq P k st"
  have live: "\<forall>i<k. clock st - start + int i * (P * 1000) < T * 1000"
  proof (intro allI impI)
    fix i assume "i < k"
    with P have "int i * P \<le> int k * P" by simp
    with budget start show "clock st - start + int i * (P * 1000) < T * 1000" by simp
  qed
  have rounds: "poll_loop c up vid T P start st = poll_loop c up vid T P start ?sk"
    using poll_loop_rounds [OF lat _ key pend live] P by simp
  have sk: "sent ?sk = sent st @ replicate k ?rq"
    "sent_at ?sk = sent_at st @ map (\<lambda>i. start + int i * (P * 1000)) [0..<k]"
    "clock ?sk = start + int k * (P * 1000)"
    using P start by (simp_all add: polled_sent polled_sent_at polled_clock)
  have "clock ?sk - start < T * 1000" using sk(3) budget by simp
  moreover have "reply up (length (sent ?sk)) ?rq = Resp r" using fin(1) sk(1) by simp
  ultimately have "poll_loop c up vid T P start ?sk =
      Some (completed_response vid (JObj kvs), snd (http_call up ?rq ?sk))"
    using key fin(2-4)
    by (simp add: poll_loop_poll get_video_eq request_json_ok)
  moreover have "sent (snd (http_call up ?rq ?sk)) = sent st @ replicate (Suc k) ?rq"
    "sent_at (snd (http_call up ?rq ?sk)) = sent_at st @ map (\<lambda>i. start + int i * (P * 1000)) [0..<Suc k]"
    using sk by (simp_all add: http_call_snd replicate_append_same)
  ultimately show ?thesis using rounds by auto
qed

text \<open>
  C7. A transport error during a poll is not retried: it ends the loop with a 500
  carrying the transport error's text, after that single request.
\<close>
theorem poll_loop_transport_error:
  assumes "clock st - start < T * 1000" "cfg_api_key c \<noteq> []"
    and "reply up (length (sent st)) (status_request c (py_str vid)) = ConnFailure m"
  shows "poll_loop c up vid T P start st =
           Some (Inl (HTTPException 500 (JStr m)), snd (http_call up (status_request c (py_str vid)) st))"
  using assms by (simp add: poll_loop_poll get_video_eq request_json_conn)

text \<open>
  C8. The poller never polls faster than the poll interval: the times at which the
  loop sends its status requests are at least \<open>poll_interval\<close> seconds apart.
\<close>
theorem video_generations_sync_poll_spacing:
  assumes sub: "video_generations c fwd up u f st = (Inr res, sa)"
    and run: "video_generations_sync c fwd up u f T P st = Some (r, st')" and P: "0 < P"
  shows "\<exists>ts. sent_at st' = sent_at sa @ ts \<and> spaced (P * 1000) ts"
proof (cases "\<exists>vid. dict_get res ''id'' JNull = Inr vid \<and> truthy vid")
  case True
  then obtain vid where "dict_get res ''id'' JNull = Inr vid" "truthy vid" by blast
  with run sub have "poll_loop c up vid T P (clock sa) sa = Some (r, st')"
    by (simp add: video_generations_sync_def)
  from poll_loop_spacing [OF this P] show ?thesis by blast
next
  case False
  with run sub have "st' = sa"
    by (auto simp: video_generations_sync_def split: sum.splits if_splits)
  then show ?thesis by (intro exI [of _ "[]"]) simp
qed

text \<open>
  C26. When a poll reads \<^verbatim>\<open>completed\<close>, the facade answers the job id, the
  status, the content location \<^verbatim>\<open>/api/v1/videos/<id>/content\<close> (not the
  bytes) and the model, size and duration the provider reports.
\<close>
theorem poll_loop_completed:
  assumes "clock st - start < T * 1000" "cfg_api_key c \<noteq> []"
    and "reply up (length (sent st)) (status_request c (py_str vid)) = Resp r"
    and "status_code r < 400" "resp_json r = Inr (JObj kvs)"
    and "obj_lookup kvs ''status'' = Some (JStr ''completed'')"
  shows "poll_loop c up vid T P start st =
           Some (Inr (JObj [(''id'', vid), (''status'', JStr ''completed''),
                            (''url'', JStr (''/api/v1/videos/'' @ py_str vid @ ''/content'')),
                            (''model'', case obj_lookup kvs ''model'' of None \<Rightarrow> JNull | Some x \<Rightarrow> x),
                            (''size'', case obj_lookup kvs ''size'' of None \<Rightarrow> JNull | Some x \<Rightarrow> x),
                            (''seconds'', case obj_lookup kvs ''seconds'' of None \<Rightarrow> JNull | Some x \<Rightarrow> x)]),
                 snd (http_call up (status_request c (py_str vid)) st))"
  using assms
  by (simp add: poll_loop_poll get_video_eq request_json_ok completed_response_def content_url_def)

text \<open>
  C27. A submission answer without a truthy \<^verbatim>\<open>id\<close> ends the facade with a 500
  before any poll, although the job may have been created upstream.
\<close>
theorem video_generations_sync_missing_id:
  "video_generations c fwd up u f st = (Inr res, sa) \<Longrightarrow> dict_get res ''id'' JNull = Inr vid \<Longrightarrow>
   \<not> truthy vid \<Longrightarrow>
   video_generations_sync c fwd up u f T P st = Some (Inl (HTTPException 500 (JStr video_id_missing)), sa)"
  by (simp add: video_generations_sync_def)

text \<open>
  C25. The polling schedule of a job that never finishes: with no latency and every
  answer pending, the loop sends \<open>\<lceil>T / P\<rceil>\<close> status requests (none when
  \<open>T \<le> 0\<close>), at \<open>start\<close>, \<open>start + P\<close>, ... seconds, and fails with the 408 at
  \<open>start + \<lceil>T / P\<rceil> * P\<close>, the first wake-up at or after the deadline.
\<close>
theorem poll_loop_always_pending_times_out:
  assumes lat: "\<forall>n. latency up n = 0" and P: "0 < P" and key: "cfg_api_key c \<noteq> []"
    and start: "clock st = start"
    and pend: "\<forall>i. pending_reply (reply up (length (sent st) + i) (status_request c (py_str vid)))"
  shows "\<exists>st'. poll_loop c up vid T P start st =
                 Some (Inl (HTTPException 408 (JStr (timeout_detail T vid))), st') \<and>
               sent st' = sent st @ replicate (nat ((T + P - 1) div P)) (status_request c (py_str vid)) \<and>
               sent_at st' = sent_at st @ map (\<lambda>i. start + int i * (P * 1000)) [0..<nat ((T + P - 1) div P)] \<and>
               clock st' = start + int (nat ((T + P - 1) div P)) * (P * 1000)"
proof -
  let ?rq = "status_request c (py_str vid)"
  let ?n = "nat ((T + P - 1) div P)"
  let ?sn = "polled ?rq P ?n st"
  have low: "T \<le> int ?n * P"
  proof -
    have "T + P - 1 - P < (T + P - 1) div P * P"
      using P by (simp add: minus_mod_eq_div_mult [symmetric] pos_mod_bound)
    then show ?thesis
      using P by (cases "0 \<le> (T + P - 1) div P") (auto simp: pos_imp_zdiv_nonneg_iff)
  qed
  have live: "\<forall>i<?n. clock st - start + int i * (P * 1000) < T * 1000"
  proof (intro allI impI)
    fix i assume "i < ?n"
    then have "int i + 1 \<le> (T + P - 1) div P" by linarith
    then have "(int i + 1) * P \<le> (T + P - 1) div P * P" using P by (simp add: mult_right_mono)
    also have "\<dots> \<le> T + P - 1"
    proof -
      have "0 \<le> (T + P - 1) mod P" using P by simp
      moreover have "(T + P - 1) div P * P = T + P - 1 - (T + P - 1) mod P"
        by (simp add: minus_mod_eq_div_mult)
      ultimately show ?thesis by linarith
    qed
    finally show "clock st - start + int i * (P * 1000) < T * 1000" using start by (simp add: algebra_simps)
  qed
  have rounds: "poll_loop c up vid T P start st = poll_loop c up vid T P start ?sn"
    using poll_loop_rounds [OF lat _ key _ live] P pend by simp
  have "clock ?sn = start + int ?n * (P * 1000)" using P start by (simp add: polled_clock)
  then have "\<not> clock ?sn - start < T * 1000" using low by simp
  then show ?thesis
    using rounds P start by (simp add: poll_loop_deadline polled_sent polled_sent_at polled_clock)
qed

end
