(* ===== verification/Streamer.thy ===== *)
theory Streamer
  imports Upstream
begin

text \<open>
  The content streamer, \<^verbatim>\<open>GET /{video_id}/content\<close> (\<^verbatim>\<open>videos.py\<close> lines
  325--373): one upstream request with \<^verbatim>\<open>stream=True\<close>, then a
  \<^verbatim>\<open>StreamingResponse\<close> over the generator \<^verbatim>\<open>generate()\<close> that yields
  \<^verbatim>\<open>r.iter_content(chunk_size=8192)\<close>. The streamed body is a list of items,
  each a yielded chunk or the exception that ends the iteration. The response body
  as it arrives from the network is a list of reads (\<open>read_event\<close>);
  \<^verbatim>\<open>iter_content\<close> (of \<^verbatim>\<open>requests\<close>, outside the sources) regroups the bytes
  received into chunks of exactly \<open>n\<close> bytes but the last, and re-raises a
  transfer error after the complete chunks received before it.
\<close>

datatype stream_item = Yield "byte list" | Raise string

record StreamingResponse =
  media_type :: string
  sr_headers :: headers
  sr_body :: "stream_item list"

fun chunks :: "nat \<Rightarrow> 'a list \<Rightarrow> 'a list list" where
  "chunks n xs = (if xs = [] \<or> n = 0 then [] else take n xs # chunks n (drop n xs))"

declare chunks.simps [simp del]

text \<open>The bytes received before the first transfer error, and that error.\<close>
fun received :: "read_event list \<Rightarrow> byte list \<times> string option" where
  "received [] = ([], None)"
| "received (Chunk bs # evs) = (let (rest, err) = received evs in (bs @ rest, err))"
| "received (ReadFailure m # evs) = ([], Some m)"

definition iter_content :: "nat \<Rightarrow> read_event list \<Rightarrow> stream_item list" where
  "iter_content n evs =
     (let (bs, err) = received evs
      in map Yield (chunks n bs) @ (case err of None \<Rightarrow> [] | Some m \<Rightarrow> [Raise m]))"

definition ascii_lower :: "char \<Rightarrow> char" where
  "ascii_lower ch =
     (let k = (of_char ch :: nat) in if 65 \<le> k \<and> k \<le> 90 then char_of (k + 32) else ch)"

text \<open>\<^verbatim>\<open>r.headers.get(k, d)\<close> on \<^verbatim>\<open>requests\<close>' case-insensitive header dict.\<close>
definition header_get :: "headers \<Rightarrow> string \<Rightarrow> string \<Rightarrow> string" where
  "header_get hs k d =
     (case map_of (map (\<lambda>(k', v). (map ascii_lower k', v)) hs) (map ascii_lower k) of
        None \<Rightarrow> d | Some v \<Rightarrow> v)"

definition content_request :: "app_config \<Rightarrow> string \<Rightarrow> outbound" where
  "content_request c video_id =
     \<lparr>out_method = GET, out_url = cfg_base_url c @ ''/videos/'' @ video_id @ ''/content'',
      out_headers = bearer (cfg_api_key c), out_params = [], out_body = NoBody, out_stream = True\<rparr>"

definition get_video_content :: "app_config \<Rightarrow> upstream \<Rightarrow> string \<Rightarrow> StreamingResponse step" where
  "get_video_content c up video_id st =
     (let api_key = cfg_api_key c in
      if api_key = [] then (Inl (HTTPException 400 (JStr key_missing)), st)
      else
        (case request_checked up (content_request c video_id) st of
           (Inl e, st') \<Rightarrow> (Inl (HTTPException 500 (JStr (exc_str e))), st')
         | (Inr r, st') \<Rightarrow>
             (let content_type = header_get (resp_headers r) ''content-type'' ''video/mp4''
              in (Inr \<lparr>media_type = content_type,
                       sr_headers = [(''Content-Disposition'',
                                      ''attachment; filename='' @ CHR 0x22 # video_id @ ''.mp4'' @ [CHR 0x22])],
                       sr_body = iter_content 8192 (resp_body r)\<rparr>, st'))))"

declare get_video_content_def [handler_defs]

text \<open>What a client that consumes the stream ends up with: the bytes, or the error.\<close>
fun consume :: "stream_item list \<Rightarrow> byte list \<times> string option" where
  "consume [] = ([], None)"
| "consume (Yield bs # xs) = (let (rest, err) = consume xs in (bs @ rest, err))"
| "consume (Raise m # xs) = ([], Some m)"

subsection \<open>Chunking\<close>

lemma chunks_Nil [simp]: "chunks n [] = []"
  by (simp add: chunks.simps)

lemma chunks_step: "xs \<noteq> [] \<Longrightarrow> 0 < n \<Longrightarrow> chunks n xs = take n xs # chunks n (drop n xs)"
  by (simp add: chunks.simps)

lemma concat_chunks [simp]: "0 < n \<Longrightarrow> concat (chunks n xs) = xs"
proof (induction n xs rule: chunks.induct)
  case (1 n xs)
  then show ?case
    by (cases "xs = []") (simp_all add: chunks_step)
qed

lemma chunks_bounded: "0 < n \<Longrightarrow> ys \<in> set (chunks n xs) \<Longrightarrow> ys \<noteq> [] \<and> length ys \<le> n"
proof (induction n xs rule: chunks.induct)
  case (1 n xs)
  show ?case
  proof (cases "xs = []")
    case True
    with "1.prems" show ?thesis by simp
  next
    case False
    with "1.prems" "1.IH" show ?thesis by (auto simp: chunks_step)
  qed
qed

lemma iter_content_chunk_sizes:
  "0 < n \<Longrightarrow>
   list_all (\<lambda>i. case i of Yield ys \<Rightarrow> ys \<noteq> [] \<and> length ys \<le> n | Raise m \<Rightarrow> True) (iter_content n evs)"
  by (auto simp: iter_content_def list_all_iff dest: chunks_bounded split: prod.splits option.splits)

lemma get_video_content_no_key:
  "cfg_api_key c = [] \<Longrightarrow> get_video_content c up vid st = (Inl (HTTPException 400 (JStr key_missing)), st)"
  by (simp add: get_video_content_def)

lemma get_video_content_ok:
  assumes "cfg_api_key c \<noteq> []" "reply up (length (sent st)) (content_request c vid) = Resp r"
    "status_code r < 400"
  shows "get_video_content c up vid st =
           (Inr \<lparr>media_type = header_get (resp_headers r) ''content-type'' ''video/mp4'',
                 sr_headers = [(''Content-Disposition'',
                                ''attachment; filename='' @ CHR 0x22 # vid @ ''.mp4'' @ [CHR 0x22])],
                 sr_body = iter_content 8192 (resp_body r)\<rparr>,
            snd (http_call up (content_request c vid) st))"
  using assms by (simp add: get_video_content_def request_checked_ok)

lemma get_video_content_sent:
  "cfg_api_key c \<noteq> [] \<Longrightarrow> sent (snd (get_video_content c up vid st)) = sent st @ [content_request c vid]"
  by (simp add: get_video_content_def split_def split: prod.splits sum.splits)

lemma consume_chunks [simp]: "consume (map Yield yss @ rest) = (concat yss @ fst (consume rest), snd (consume rest))"
  by (induction yss) (auto split: prod.splits)

lemma consume_map_Yield [simp]: "consume (map Yield yss) = (concat yss, None)"
  by (induction yss) auto

lemma consume_iter_content: "0 < n \<Longrightarrow> consume (iter_content n evs) = received evs"
  by (auto simp: iter_content_def split: prod.splits option.splits)

lemma header_get_Nil [simp]: "header_get [] k d = d"
  by (simp add: header_get_def)

subsection \<open>Properties\<close>

text \<open>
  C12. The content stream relays the upstream body: a client that consumes it
  gets exactly the bytes the upstream sent, and the upstream's transfer error when
  the transfer broke (never a silently truncated body); every yielded chunk has
  between 1 and 8192 bytes, so the body is never held whole in memory.
\<close>
theorem get_video_content_relays:
  assumes "cfg_api_key c \<noteq> []" "reply up (length (sent st)) (content_request c vid) = Resp r"
    and "status_code r < 400"
  shows "\<exists>resp. fst (get_video_content c up vid st) = Inr resp \<and>
           consume (sr_body resp) = received (resp_body r) \<and>
           list_all (\<lambda>i. case i of Yield ys \<Rightarrow> ys \<noteq> [] \<and> length ys \<le> 8192 | Raise m \<Rightarrow> True)
             (sr_body resp)"
  using get_video_content_ok [OF assms] consume_iter_content iter_content_chunk_sizes by simp

text \<open>
  C13. The streamed response carries the upstream's content type, \<^verbatim>\<open>video/mp4\<close>
  when the upstream sends none, and the disposition
  \<^verbatim>\<open>attachment; filename="<id>.mp4"\<close>; the request to the upstream is one
  streaming \<^verbatim>\<open>GET {base_url}/videos/<id>/content\<close>.
\<close>
theorem get_video_content_headers:
  assumes "cfg_api_key c \<noteq> []" "reply up (length (sent st)) (content_request c vid) = Resp r"
    and "status_code r < 400" "get_video_content c up vid st = (Inr resp, st')"
  shows "media_type resp = header_get (resp_headers r) ''content-type'' ''video/mp4'' \<and>
         (resp_headers r = [] \<longrightarrow> media_type resp = ''video/mp4'') \<and>
         sr_headers resp = [(''Content-Disposition'',
                              ''attachment; filename='' @ CHR 0x22 # vid @ ''.mp4'' @ [CHR 0x22])] \<and>
         sent st' = sent st @ [content_request c vid] \<and>
         out_url (content_request c vid) = cfg_base_url c @ ''/videos/'' @ vid @ ''/content'' \<and>
         out_stream (content_request c vid)"
  using assms(4) get_video_content_ok [OF assms(1-3)]
  by (auto simp: http_call_snd content_request_def)

text \<open>
  C19. When the upstream refuses the content (for instance 404 for a job that is not
  complete), the route answers 500, not the upstream's status code.
\<close>
theorem get_video_content_error_status_lost:
  assumes "cfg_api_key c \<noteq> []" "reply up (length (sent st)) (content_request c vid) = Resp r"
    and "400 \<le> status_code r" "status_code r < 600"
  shows "\<exists>m. fst (get_video_content c up vid st) = Inl (HTTPException 500 (JStr m))"
proof -
  from request_checked_http_error [OF assms(2-4)] obtain m where
    "request_checked up (content_request c vid) st =
       (Inl (HTTPError (status_code r) m (resp_json r)), snd (http_call up (content_request c vid) st))"
    by blast
  with assms(1) show ?thesis by (simp add: get_video_content_def)
qed

end
