(* ===== verification/Spec2Isabelle.thy ===== *)
theory Spec2Isabelle
  imports Poller Streamer
begin

text \<open>
  \<^bold>\<open>A verification model of the video-generation proxy of Open WebUI.\<close>

  The program is one FastAPI router, \<^verbatim>\<open>src/open-webui-source/backend/open_webui/routers/videos.py\<close>.
  It submits video-generation jobs to an OpenAI-compatible provider
  (\<^verbatim>\<open>POST {base_url}/videos\<close>), forwards status, list, content and delete calls,
  and offers a synchronous route that submits a job and polls it until it is
  complete, failed, or out of time. Every route reads the provider settings from
  \<^verbatim>\<open>request.app.state.config\<close> with \<^verbatim>\<open>getattr\<close> defaults. The router keeps
  no state of its own: the jobs live at the provider.

  \<^bold>\<open>Theories and what they model.\<close>
  \<^item> \<open>Prelude\<close>: the Python primitives the router uses (\<^verbatim>\<open>startswith\<close>,
    \<^verbatim>\<open>split\<close>, \<^verbatim>\<open>split(c, 1)\<close>, \<^verbatim>\<open>lstrip\<close>, \<^verbatim>\<open>str(int)\<close>, insertion-ordered
    dicts with \<^verbatim>\<open>d[k] = v\<close> and \<^verbatim>\<open>del d[k]\<close>) and their lemmas.
  \<^item> \<open>PyJson\<close>: JSON values as Python sees them (truthiness, \<^verbatim>\<open>or\<close>,
    \<^verbatim>\<open>.get\<close>, \<^verbatim>\<open>in\<close>, indexing, \<^verbatim>\<open>str\<close>/\<^verbatim>\<open>repr\<close>) and the exceptions (\<open>exc\<close>):
    FastAPI's \<^verbatim>\<open>HTTPException\<close>, the \<^verbatim>\<open>requests\<close> exceptions, plain errors.
  \<^item> \<open>Config\<close> (lines 33--101): \<^verbatim>\<open>VideosConfig\<close>, the application attributes
    (\<open>app_config\<close>, an absent attribute is \<open>None\<close>), \<^verbatim>\<open>get_config\<close>,
    \<^verbatim>\<open>update_config\<close>, \<^verbatim>\<open>get_models\<close>, and the admin/verified-user dependencies.
  \<^item> \<open>Upstream\<close> (lines 251--322, 376--407): the outside world as a record
    \<open>net\<close> (the requests sent, their send times, the clock \<^verbatim>\<open>time.time()\<close> in
    milliseconds) and the provider as an oracle \<open>upstream\<close> (the answer to, and
    latency of, the \<open>n\<close>-th request); \<^verbatim>\<open>raise_for_status\<close>, the shared
    \<^verbatim>\<open>try\<close> body, and the routes \<^verbatim>\<open>list_videos\<close>, \<^verbatim>\<open>get_video\<close>,
    \<^verbatim>\<open>delete_video\<close>. A route is a function \<open>net \<Rightarrow> result \<times> net\<close>.
  \<^item> \<open>Base64\<close>: \<^verbatim>\<open>base64.b64decode\<close> (called at line 200) as CPython's non-strict
    \<^verbatim>\<open>binascii.a2b_base64\<close> state machine over 8-bit words.
  \<^item> \<open>Submission\<close> (lines 104--111, 126--248): \<^verbatim>\<open>CreateVideoForm\<close> and
    \<^verbatim>\<open>video_generations\<close>, split along the code's blocks: \<open>submit_data\<close>
    (defaults), \<open>submit_headers\<close>, \<open>attach_reference\<close> (the reference image:
    multipart, JSON field, or dropped), \<open>submit_request\<close>, \<open>error_detail\<close> and
    \<open>submit_except\<close> (the \<^verbatim>\<open>except\<close> clauses).
  \<^item> \<open>Poller\<close> (lines 410--464): \<^verbatim>\<open>video_generations_sync\<close> with its
    \<^verbatim>\<open>while\<close> loop \<open>poll_loop\<close> as a \<^theory_text>\<open>partial_function (option)\<close>; \<open>None\<close>
    is a loop that never returns. \<^verbatim>\<open>asyncio.sleep\<close> advances the clock.
  \<^item> \<open>Streamer\<close> (lines 325--373): \<^verbatim>\<open>get_video_content\<close>, the
    \<^verbatim>\<open>StreamingResponse\<close> over \<^verbatim>\<open>iter_content(8192)\<close>, modelled as a list of
    yielded chunks ended by the transfer error, if any.

  \<^bold>\<open>What is proved.\<close> The claims C1--C29 are the theorems introduced by
  \<^theory_text>\<open>text\<close> blocks that name them. The poller terminates for a positive poll
  interval (C1), times out within the deadline plus one interval plus the longest
  latency and names the job id (C2), stops on a provider failure (C3) and on a
  transport error (C7), never polls faster than the interval (C8), and answers the
  content location on completion (C26). A submission uses exactly one encoding,
  multipart exactly for inline \<^verbatim>\<open>data:\<close> images (C4), passes URLs through
  verbatim (C9), preserves the upstream's error status (C10, C11) and sends at most
  one request (C23). No route sends anything without an API key (C5). The content
  route relays the upstream body chunk by chunk and surfaces transfer errors
  (C12, C13). The admin routes round-trip the configuration (C14) and are closed to
  non-admins (C15). For a provider without latency the polling schedule is exact:
  \<open>k\<close> pending answers and then completion give \<open>k + 1\<close> polls at
  \<open>start + i * P\<close> (C6), and a job that never finishes gives \<open>\<lceil>T / P\<rceil>\<close> polls and
  the 408 at the first wake-up at or after the deadline (C25); these rest on the
  round-by-round unfolding \<open>poll_loop_rounds\<close>. The other claims record where the
  code departs from the spec: the MIME type mangled by \<^verbatim>\<open>lstrip\<close>, for every
  type starting with d, a, t or : (C16), the uncaught \<^verbatim>\<open>ValueError\<close> (C17),
  status codes lost as 500 (C18, C19), the ignored \<^verbatim>\<open>ENABLE_VIDEO_GENERATION\<close>
  flag and \<^verbatim>\<open>n\<close> (C20, C21), a cleared duration sent as \<^verbatim>\<open>null\<close> (C22),
  caller identity forwarded on submissions only (C24), unknown references dropped
  (C29), and the missing-id exit (C27). C28 describes the list request.

  \<^bold>\<open>Bounds and fuel.\<close> There is no fuel: the poll loop is a partial function,
  and C1 proves it returns whenever \<^verbatim>\<open>poll_interval > 0\<close>, by induction on the
  remaining time budget (each round advances the clock by at least one interval).
  Time is an integer number of milliseconds; latencies are natural numbers.

  \<^bold>\<open>Not modelled.\<close> FastAPI's routing, request parsing and response
  serialisation; the \<^verbatim>\<open>log\<close> calls and the cache directory (no effect on
  results); \<^verbatim>\<open>asyncio.to_thread\<close> (a call is atomic here); the provider itself
  (it is the oracle); concurrent admin updates during a poll loop (the
  configuration is a parameter of a run); Python's Unicode strings beyond one
  character per code unit; JSON floats. Two library behaviours are idealised:
  \<^verbatim>\<open>iter_content\<close> yields the bytes received before a transfer error, the last
  partial chunk included, where urllib3 may lose a partial read on a connection
  reset; and the message of \<^verbatim>\<open>raise_for_status\<close> names the URL without its
  query string. Neither is code of the repository.
\<close>

section \<open>Fixtures\<close>

text \<open>Concrete inputs for the scenarios and witnesses: a configured key, a user, the
  spec's form, and providers that answer from a script.\<close>

definition demo_config :: app_config where
  "demo_config = unset_config\<lparr>cfg_VIDEOS_OPENAI_API_KEY := Some ''sk-test''\<rparr>"

definition demo_user :: user where
  "demo_user = \<lparr>user_id = ''u1'', user_name = ''Ada'', user_email = ''ada@example.com'',
                user_role = ''user''\<rparr>"

definition demo_form :: CreateVideoForm where
  "demo_form = \<lparr>form_model = None, form_prompt = ''a cat'', form_input_reference = None,
     form_seconds = Some ''4'', form_size = None, form_quality = None, form_n = 1\<rparr>"

definition ok_response :: "json \<Rightarrow> response" where
  "ok_response j = \<lparr>status_code = 200, reason = ''OK'', resp_headers = [], resp_json = Inr j,
                    resp_body = []\<rparr>"

definition scripted :: "json list \<Rightarrow> upstream" where
  "scripted js = \<lparr>reply = (\<lambda>n rq. Resp (ok_response (if n < length js then js ! n else last js))),
                  latency = (\<lambda>n. 0)\<rparr>"

definition net0 :: net where
  "net0 = \<lparr>sent = [], sent_at = [], clock = 0\<rparr>"

definition job :: "string \<Rightarrow> json" where
  "job s = JObj [(''id'', JStr ''v1''), (''status'', JStr s)]"

definition finished_kvs :: "(string \<times> json) list" where
  "finished_kvs = [(''id'', JStr ''v1''), (''status'', JStr ''completed''),
     (''model'', JStr ''sora-2''), (''size'', JStr ''1920x1080''), (''seconds'', JStr ''4'')]"

definition finished_job :: json where
  "finished_job = JObj finished_kvs"

definition failed_kvs :: "(string \<times> json) list" where
  "failed_kvs = [(''id'', JStr ''v1''), (''status'', JStr ''failed''), (''error'', JStr ''quota exceeded'')]"

definition conn_upstream :: upstream where
  "conn_upstream = \<lparr>reply = (\<lambda>n rq. ConnFailure ''Connection refused''), latency = (\<lambda>n. 0)\<rparr>"

definition error_response :: response where
  "error_response = \<lparr>status_code = 404, reason = ''Not Found'', resp_headers = [],
     resp_json = Inr (JObj [(''error'', JObj [(''message'', JStr ''no such video'')])]), resp_body = []\<rparr>"

definition error_upstream :: upstream where
  "error_upstream = \<lparr>reply = (\<lambda>n rq. Resp error_response), latency = (\<lambda>n. 0)\<rparr>"

definition content_response :: response where
  "content_response = \<lparr>status_code = 200, reason = ''OK'', resp_headers = [],
     resp_json = Inl ''Expecting value'', resp_body = [Chunk [1, 2, 3], ReadFailure ''connection reset'']\<rparr>"

definition content_upstream :: upstream where
  "content_upstream = \<lparr>reply = (\<lambda>n rq. Resp content_response), latency = (\<lambda>n. 0)\<rparr>"

definition image_form :: CreateVideoForm where
  "image_form = demo_form\<lparr>form_input_reference := Some ''data:image/png;base64,aGVsbG8=''\<rparr>"

definition url_form :: CreateVideoForm where
  "url_form = demo_form\<lparr>form_input_reference := Some ''https://example.com/cat.png''\<rparr>"

lemmas eval_defs = demo_config_def failed_kvs_def conn_upstream_def error_response_def
  error_upstream_def content_response_def content_upstream_def image_form_def url_form_def demo_user_def demo_form_def ok_response_def scripted_def
  net0_def job_def finished_job_def finished_kvs_def unset_config_def cfg_engine_def cfg_api_key_def
  cfg_base_url_def video_generations_def submit_data_def submit_headers_def attach_reference_def
  submit_request_def request_json_def request_checked_def http_call_def raise_for_status_def
  submit_except_def video_generations_sync_def get_video_def status_request_def catch_500_def
  completed_response_def content_url_def sleep_def timeout_detail_def bearer_def py_or_def
  obj_lookup_def dict_of_pairs_def dict_set_def Let_def py_str_def dict_del_def
  b64decode_def a2b_base64_def a2b_init_def a2b_data_def b64_value_def py_split_max1_def
  py_lstrip_def py_startswith_def is_data_ref_def get_video_content_def content_request_def
  iter_content_def header_get_def list_videos_def failed_response_def

section \<open>Properties across components\<close>

text \<open>
  C5. Missing API key: every route that talks to the provider answers 400 before any
  network call; the request log and the clock are unchanged.
\<close>
theorem no_api_key_no_request:
  assumes "cfg_api_key c = []"
  shows "(\<exists>d. list_videos c up lim after st = (Inl (HTTPException 400 d), st)) \<and>
         (\<exists>d. get_video c up vid st = (Inl (HTTPException 400 d), st)) \<and>
         (\<exists>d. delete_video c up vid st = (Inl (HTTPException 400 d), st)) \<and>
         (\<exists>d. get_video_content c up vid st = (Inl (HTTPException 400 d), st)) \<and>
         (\<exists>d. video_generations c fwd up u f st = (Inl (HTTPException 400 d), st)) \<and>
         (\<exists>d. video_generations_sync c fwd up u f T P st = Some (Inl (HTTPException 400 d), st))"
proof -
  from video_generations_no_key [OF assms] obtain d where
    "video_generations c fwd up u f st = (Inl (HTTPException 400 d), st)" by blast
  with assms show ?thesis
    by (simp add: forwarding_routes_no_key get_video_content_no_key video_generations_sync_def)
qed

text \<open>
  C22. A configuration default applies only to an attribute that was never set:
  with no duration in the form, a fresh application sends \<^verbatim>\<open>seconds: "4"\<close>,
  but after an admin saves the configuration with an empty duration
  (\<^verbatim>\<open>VIDEO_DURATION = None\<close>) the submission sends \<^verbatim>\<open>seconds: null\<close>.
\<close>
theorem cleared_duration_sends_null:
  "VIDEO_DURATION g = None \<Longrightarrow> form_seconds f = None \<Longrightarrow>
   obj_lookup (submit_data unset_config f) ''seconds'' = Some (JStr ''4'') \<and>
   obj_lookup (submit_data (fst (update_config c g)) f) ''seconds'' = Some JNull"
  by (simp add: obj_lookup_distinct submit_data_def update_config_def unset_config_def Let_def)

text \<open>
  C24. Caller identity reaches the provider only with a submission: with a key
  configured, the list, status, delete and content routes each send one request
  whose only header is \<^verbatim>\<open>Authorization: Bearer <key>\<close>, whatever the
  forwarding setting, while a submission made with user-info forwarding on carries
  the caller's \<^verbatim>\<open>X-OpenWebUI-User-Id\<close> in either encoding.
\<close>
theorem user_info_forwarded_only_on_submission:
  assumes "cfg_api_key c \<noteq> []"
  shows "(\<exists>rq. sent (snd (list_videos c up lim after st)) = sent st @ [rq] \<and>
               out_headers rq = [(''Authorization'', ''Bearer '' @ cfg_api_key c)]) \<and>
         (\<exists>rq. sent (snd (get_video c up vid st)) = sent st @ [rq] \<and>
               out_headers rq = [(''Authorization'', ''Bearer '' @ cfg_api_key c)]) \<and>
         (\<exists>rq. sent (snd (delete_video c up vid st)) = sent st @ [rq] \<and>
               out_headers rq = [(''Authorization'', ''Bearer '' @ cfg_api_key c)]) \<and>
         (\<exists>rq. sent (snd (get_video_content c up vid st)) = sent st @ [rq] \<and>
               out_headers rq = [(''Authorization'', ''Bearer '' @ cfg_api_key c)]) \<and>
         (\<forall>r st' rq. video_generations c True up u f st = (r, st') \<longrightarrow> sent st' = sent st @ [rq] \<longrightarrow>
               map_of (out_headers rq) ''X-OpenWebUI-User-Id'' = Some (user_id u))"
proof (intro conjI allI impI)
  show "\<exists>rq. sent (snd (list_videos c up lim after st)) = sent st @ [rq] \<and>
          out_headers rq = [(''Authorization'', ''Bearer '' @ cfg_api_key c)]"
    using assms by (simp add: list_videos_def Let_def split_def bearer_def)
  show "\<exists>rq. sent (snd (get_video c up vid st)) = sent st @ [rq] \<and>
          out_headers rq = [(''Authorization'', ''Bearer '' @ cfg_api_key c)]"
    using assms by (simp add: get_video_def Let_def split_def bearer_def status_request_def)
  show "\<exists>rq. sent (snd (delete_video c up vid st)) = sent st @ [rq] \<and>
          out_headers rq = [(''Authorization'', ''Bearer '' @ cfg_api_key c)]"
    using assms by (simp add: delete_video_def Let_def split_def bearer_def)
  show "\<exists>rq. sent (snd (get_video_content c up vid st)) = sent st @ [rq] \<and>
          out_headers rq = [(''Authorization'', ''Bearer '' @ cfg_api_key c)]"
    using assms by (simp add: get_video_content_sent content_request_def bearer_def)
next
  fix r st' rq
  assume "video_generations c True up u f st = (r, st')" "sent st' = sent st @ [rq]"
  from video_generations_user_headers [OF this]
  show "map_of (out_headers rq) ''X-OpenWebUI-User-Id'' = Some (user_id u)" .
qed

section \<open>Witnesses\<close>

text \<open>Each theorem with hypotheses, applied where its hypotheses hold.\<close>

theorem video_generations_sync_returns_witness:
  "\<exists>r. video_generations_sync demo_config False (scripted [job ''in_progress'']) demo_user demo_form 10 5 net0 = Some r"
  using video_generations_sync_returns [where P = 5 and c = demo_config and fwd = False
          and up = "scripted [job ''in_progress'']" and u = demo_user and f = demo_form and T = 10 and st = net0]
  by simp

theorem video_generations_sync_timeout_witness:
  "sublist ''v1'' (timeout_detail 10 (JStr ''v1'')) \<and>
   (10::int) * 1000 \<le> clock (snd (the (video_generations_sync demo_config False
      (scripted [job ''queued'', job ''in_progress'']) demo_user demo_form 10 5 net0))) - 0"
  using video_generations_sync_timeout [where c = demo_config and fwd = False
          and up = "scripted [job ''queued'', job ''in_progress'']" and u = demo_user and f = demo_form
          and st = net0 and res = "job ''queued''"
          and sa = "snd (video_generations demo_config False (scripted [job ''queued'', job ''in_progress''])
                            demo_user demo_form net0)"
          and vid = "JStr ''v1''" and T = 10 and P = 5 and L = 0
          and d = "JStr (timeout_detail 10 (JStr ''v1''))"
          and st' = "snd (the (video_generations_sync demo_config False
                        (scripted [job ''queued'', job ''in_progress'']) demo_user demo_form 10 5 net0))"]
  by (simp add: eval_defs poll_loop.simps)


theorem poll_loop_failed_stops_witness:
  "poll_loop demo_config (scripted [JObj failed_kvs]) (JStr ''v1'') 10 5 0 net0 =
     Some (Inl (HTTPException 500 (JStr ''Video generation failed: quota exceeded'')),
           snd (http_call (scripted [JObj failed_kvs]) (status_request demo_config ''v1'') net0))"
  using poll_loop_failed_stops [where st = net0 and start = 0 and T = 10 and c = demo_config
          and up = "scripted [JObj failed_kvs]" and vid = "JStr ''v1''" and r = "ok_response (JObj failed_kvs)"
          and kvs = failed_kvs and P = 5]
  by (simp add: eval_defs)

theorem video_generations_encoding_witness:
  "case out_body (last (sent (snd (video_generations demo_config False (scripted [job ''queued''])
                                    demo_user image_form net0)))) of
     FormBody d fs \<Rightarrow> is_data_ref (form_input_reference image_form) \<and> length fs = 1
   | JsonBody d \<Rightarrow> False
   | NoBody \<Rightarrow> False"
  using video_generations_encoding [where c = demo_config and fwd = False and up = "scripted [job ''queued'']"
          and u = demo_user and f = image_form and st = net0
          and r = "fst (video_generations demo_config False (scripted [job ''queued'']) demo_user image_form net0)"
          and st' = "snd (video_generations demo_config False (scripted [job ''queued'']) demo_user image_form net0)"
          and rq = "last (sent (snd (video_generations demo_config False (scripted [job ''queued''])
                                      demo_user image_form net0)))"]
  by (simp add: eval_defs)

theorem no_api_key_no_request_witness:
  "(\<exists>d. get_video unset_config (scripted [job ''queued'']) ''v1'' net0 = (Inl (HTTPException 400 d), net0)) \<and>
   (\<exists>d. video_generations_sync unset_config False (scripted [job ''queued'']) demo_user demo_form 10 5 net0 =
          Some (Inl (HTTPException 400 d), net0))"
  using no_api_key_no_request [where c = unset_config and up = "scripted [job ''queued'']" and lim = 20
          and after = None and st = net0 and vid = "''v1''" and fwd = False and u = demo_user
          and f = demo_form and T = 10 and P = 5]
  by (simp add: unset_config_def cfg_api_key_def)

theorem poll_loop_transport_error_witness:
  "poll_loop demo_config conn_upstream (JStr ''v1'') 10 5 0 net0 =
     Some (Inl (HTTPException 500 (JStr ''Connection refused'')),
           snd (http_call conn_upstream (status_request demo_config ''v1'') net0))"
  using poll_loop_transport_error [where st = net0 and start = 0 and T = 10 and c = demo_config
          and up = conn_upstream and vid = "JStr ''v1''" and m = "''Connection refused''" and P = 5]
  by (simp add: eval_defs)

theorem video_generations_sync_poll_spacing_witness:
  "\<exists>ts. sent_at (snd (the (video_generations_sync demo_config False
            (scripted [job ''queued'', job ''in_progress'', job ''in_progress'', finished_job])
            demo_user demo_form 300 5 net0))) = [0] @ ts \<and> spaced (5 * 1000) ts"
  using video_generations_sync_poll_spacing [where c = demo_config and fwd = False
          and up = "scripted [job ''queued'', job ''in_progress'', job ''in_progress'', finished_job]"
          and u = demo_user and f = demo_form and st = net0 and res = "job ''queued''"
          and sa = "snd (video_generations demo_config False
                    (scripted [job ''queued'', job ''in_progress'', job ''in_progress'', finished_job])
                    demo_user demo_form net0)"
          and T = 300 and P = 5
          and r = "fst (the (video_generations_sync demo_config False
                    (scripted [job ''queued'', job ''in_progress'', job ''in_progress'', finished_job])
                    demo_user demo_form 300 5 net0))"
          and st' = "snd (the (video_generations_sync demo_config False
                    (scripted [job ''queued'', job ''in_progress'', job ''in_progress'', finished_job])
                    demo_user demo_form 300 5 net0))"]
  by (simp add: eval_defs poll_loop.simps)

theorem video_generations_url_reference_witness:
  "\<exists>rq d. sent (snd (video_generations demo_config False (scripted [job ''queued'']) demo_user url_form net0)) = [rq] \<and>
          out_body rq = JsonBody (JObj d) \<and>
          obj_lookup d ''input_reference'' = Some (JStr ''https://example.com/cat.png'')"
  using video_generations_url_reference [where c = demo_config and fwd = False and up = "scripted [job ''queued'']"
          and u = demo_user and f = url_form and st = net0
          and r = "fst (video_generations demo_config False (scripted [job ''queued'']) demo_user url_form net0)"
          and st' = "snd (video_generations demo_config False (scripted [job ''queued'']) demo_user url_form net0)"
          and url = "''https://example.com/cat.png''"]
  by (simp add: eval_defs)

theorem video_generations_upstream_error_witness:
  "\<exists>m. fst (video_generations demo_config False error_upstream demo_user demo_form net0) =
        Inl (HTTPException 404 (error_detail m (resp_json error_response)))"
  using video_generations_upstream_error [where c = demo_config and fwd = False and u = demo_user
          and f = demo_form and h = "submit_headers ''sk-test'' False demo_user"
          and d = "submit_data demo_config demo_form" and fs = "[]" and up = error_upstream
          and st = net0 and r = error_response]
  by (simp add: eval_defs)

theorem error_detail_message_witness:
  "error_detail ''404 Client Error'' (Inr (JObj [(''error'', JObj [(''message'', JStr ''no such video'')])])) =
   JStr ''no such video''"
  using error_detail_message [where kvs = "[(''error'', JObj [(''message'', JStr ''no such video'')])]"
          and ekvs = "[(''message'', JStr ''no such video'')]" and m = "JStr ''no such video''"
          and s = "''404 Client Error''"]
  by (simp add: obj_lookup_def dict_of_pairs_def dict_set_def)

theorem get_video_content_relays_witness:
  "\<exists>resp. fst (get_video_content demo_config content_upstream ''v1'' net0) = Inr resp \<and>
     consume (sr_body resp) = ([1, 2, 3], Some ''connection reset'')"
  using get_video_content_relays [where c = demo_config and up = content_upstream and st = net0
          and vid = "''v1''" and r = content_response]
  by (simp add: eval_defs)

theorem get_video_content_headers_witness:
  "media_type (projr (fst (get_video_content demo_config content_upstream ''v1'' net0))) = ''video/mp4''"
  using get_video_content_headers [where c = demo_config and up = content_upstream and st = net0
          and vid = "''v1''" and r = content_response
          and resp = "projr (fst (get_video_content demo_config content_upstream ''v1'' net0))"
          and st' = "snd (get_video_content demo_config content_upstream ''v1'' net0)"]
  by (simp add: eval_defs)

theorem update_config_route_requires_admin_witness:
  "update_config_route demo_user demo_config (get_config demo_config) =
   (demo_config, Inl (HTTPException 401 (JStr ACCESS_PROHIBITED)))"
  using update_config_route_requires_admin [where u = demo_user and c = demo_config and f = "get_config demo_config"]
  by (simp add: demo_user_def)

theorem video_generations_data_uri_without_comma_witness:
  "video_generations demo_config False (scripted [job ''queued'']) demo_user
     (demo_form\<lparr>form_input_reference := Some ''data:abc''\<rparr>) net0 = (Inl (PyError ValueError), net0)"
  using video_generations_data_uri_without_comma [where c = demo_config
          and f = "demo_form\<lparr>form_input_reference := Some ''data:abc''\<rparr>" and r = "''data:abc''"
          and fwd = False and up = "scripted [job ''queued'']" and u = demo_user and st = net0]
  by (simp add: eval_defs)

theorem get_video_error_status_lost_witness:
  "\<exists>m. fst (get_video demo_config error_upstream ''v1'' net0) = Inl (HTTPException 500 (JStr m))"
  using get_video_error_status_lost [where c = demo_config and up = error_upstream and st = net0
          and vid = "''v1''" and r = error_response]
  by (simp add: eval_defs)

theorem get_video_content_error_status_lost_witness:
  "\<exists>m. fst (get_video_content demo_config error_upstream ''v1'' net0) = Inl (HTTPException 500 (JStr m))"
  using get_video_content_error_status_lost [where c = demo_config and up = error_upstream and st = net0
          and vid = "''v1''" and r = error_response]
  by (simp add: eval_defs)

theorem cleared_duration_sends_null_witness:
  "obj_lookup (submit_data (fst (update_config demo_config
      ((get_config demo_config)\<lparr>VIDEO_DURATION := None\<rparr>))) (demo_form\<lparr>form_seconds := None\<rparr>)) ''seconds'' =
   Some JNull"
  using cleared_duration_sends_null [where g = "(get_config demo_config)\<lparr>VIDEO_DURATION := None\<rparr>"
          and f = "demo_form\<lparr>form_seconds := None\<rparr>" and c = demo_config]
  by simp

theorem poll_loop_completed_witness:
  "poll_loop demo_config (scripted [finished_job]) (JStr ''v1'') 10 5 0 net0 =
     Some (Inr (JObj [(''id'', JStr ''v1''), (''status'', JStr ''completed''),
                      (''url'', JStr ''/api/v1/videos/v1/content''), (''model'', JStr ''sora-2''),
                      (''size'', JStr ''1920x1080''), (''seconds'', JStr ''4'')]),
           snd (http_call (scripted [finished_job]) (status_request demo_config ''v1'') net0))"
  using poll_loop_completed [where st = net0 and start = 0 and T = 10 and c = demo_config
          and up = "scripted [finished_job]" and vid = "JStr ''v1''" and r = "ok_response finished_job"
          and kvs = "[(''id'', JStr ''v1''), (''status'', JStr ''completed''), (''model'', JStr ''sora-2''),
                      (''size'', JStr ''1920x1080''), (''seconds'', JStr ''4'')]" and P = 5]
  by (simp add: eval_defs)

theorem video_generations_sync_missing_id_witness:
  "video_generations_sync demo_config False (scripted [JObj [(''status'', JStr ''queued'')]]) demo_user
     demo_form 10 5 net0 =
   Some (Inl (HTTPException 500 (JStr video_id_missing)),
         snd (video_generations demo_config False (scripted [JObj [(''status'', JStr ''queued'')]])
                demo_user demo_form net0))"
  using video_generations_sync_missing_id [where c = demo_config and fwd = False
          and up = "scripted [JObj [(''status'', JStr ''queued'')]]" and u = demo_user and f = demo_form
          and st = net0 and res = "JObj [(''status'', JStr ''queued'')]"
          and sa = "snd (video_generations demo_config False (scripted [JObj [(''status'', JStr ''queued'')]])
                         demo_user demo_form net0)"
          and vid = JNull and T = 10 and P = 5]
  by (simp add: eval_defs)

theorem list_videos_request_witness:
  "\<exists>rq. sent (snd (list_videos demo_config (scripted [JArr []]) 20 (Some ''cursor1'') net0)) = [rq] \<and>
        map_of (out_params rq) ''after'' = Some (JStr ''cursor1'')"
  using list_videos_request [where c = demo_config and up = "scripted [JArr []]" and lim = 20
          and after = "Some ''cursor1''" and st = net0
          and r = "fst (list_videos demo_config (scripted [JArr []]) 20 (Some ''cursor1'') net0)"
          and st' = "snd (list_videos demo_config (scripted [JArr []]) 20 (Some ''cursor1'') net0)"]
  by (simp add: eval_defs)

theorem video_generations_other_reference_dropped_witness:
  "video_generations demo_config False (scripted [job ''queued'']) demo_user
     (demo_form\<lparr>form_input_reference := Some ''ftp://example.com/cat.png''\<rparr>) net0 =
   video_generations demo_config False (scripted [job ''queued'']) demo_user demo_form net0"
  using video_generations_other_reference_dropped [where f = "demo_form\<lparr>form_input_reference := Some ''ftp://example.com/cat.png''\<rparr>"
          and r = "''ftp://example.com/cat.png''" and c = demo_config and fwd = False
          and up = "scripted [job ''queued'']" and u = demo_user and st = net0]
  by (simp add: py_startswith_def demo_form_def)

theorem poll_loop_pending_then_completed_witness:
  "\<exists>st'. poll_loop demo_config (scripted [job ''in_progress'', job ''in_progress'', finished_job])
           (JStr ''v1'') 300 5 0 net0 = Some (completed_response (JStr ''v1'') (JObj finished_kvs), st') \<and>
         sent_at st' = [0, 5000, 10000]"
proof -
  let ?up = "scripted [job ''in_progress'', job ''in_progress'', finished_job]"
  let ?rq = "status_request demo_config (py_str (JStr ''v1''))"
  have lat: "\<forall>n. latency ?up n = 0" by (simp add: scripted_def)
  have key: "cfg_api_key demo_config \<noteq> []"
    by (simp add: demo_config_def unset_config_def cfg_api_key_def)
  have pend: "\<forall>i<2. pending_reply (reply ?up (length (sent net0) + i) ?rq)"
    by (simp add: scripted_def ok_response_def job_def pending_reply_def obj_lookup_def dict_of_pairs_def
                  dict_set_def net0_def numeral_2_eq_2 less_Suc_eq)
  have fin: "reply ?up (length (sent net0) + 2) ?rq = Resp (ok_response finished_job)"
    by (simp add: scripted_def net0_def)
  have kvs: "obj_lookup finished_kvs ''status'' = Some (JStr ''completed'')"
    by (simp add: finished_kvs_def obj_lookup_def dict_of_pairs_def dict_set_def)
  have P: "0 < (5::int)" and st: "clock net0 = 0" and budget: "int 2 * 5 < (300::int)"
    and ok: "status_code (ok_response finished_job) < 400"
    and js: "resp_json (ok_response finished_job) = Inr (JObj finished_kvs)"
    by (simp_all add: net0_def ok_response_def finished_job_def)
  from poll_loop_pending_then_completed [OF lat P key st budget pend fin ok js kvs]
  show ?thesis by (auto simp: net0_def upt_rec)
qed

theorem poll_loop_always_pending_times_out_witness:
  "\<exists>st'. poll_loop demo_config (scripted [job ''in_progress'']) (JStr ''v1'') 10 5 0 net0 =
           Some (Inl (HTTPException 408 (JStr (timeout_detail 10 (JStr ''v1'')))), st') \<and>
         sent_at st' = [0, 5000] \<and> clock st' = 10000"
proof -
  let ?up = "scripted [job ''in_progress'']"
  let ?rq = "status_request demo_config (py_str (JStr ''v1''))"
  have lat: "\<forall>n. latency ?up n = 0" by (simp add: scripted_def)
  have key: "cfg_api_key demo_config \<noteq> []"
    by (simp add: demo_config_def unset_config_def cfg_api_key_def)
  have pend: "\<forall>i. pending_reply (reply ?up (length (sent net0) + i) ?rq)"
    by (simp add: scripted_def ok_response_def job_def pending_reply_def obj_lookup_def dict_of_pairs_def
                  dict_set_def split: if_split)
  have P: "0 < (5::int)" and st: "clock net0 = 0" by (simp_all add: net0_def)
  from poll_loop_always_pending_times_out [OF lat P key st pend, where T = 10]
  show ?thesis by (auto simp: net0_def upt_rec)
qed

theorem data_uri_mime_lstrip_witness:
  "\<exists>h'. attach_reference (Some ''data:application/pdf;base64,AAAA'') (submit_headers ''sk-test'' False demo_user) [] =
        Inr (h', [], [(''input_reference'', ''reference.png'', [0, 0, 0], ''pplication/pdf'')])"
proof -
  have b: "b64decode ''AAAA'' = Inr [0, 0, 0]"
    by (simp add: b64decode_def a2b_base64_def a2b_init_def a2b_data_def b64_value_def Let_def)
  show ?thesis
    using data_uri_mime_lstrip [where m = "''application/pdf''" and enc = "''AAAA''" and bs = "[0, 0, 0]"
            and h = "submit_headers ''sk-test'' False demo_user" and d = "[]"] b
    by (simp add: submit_headers_def Let_def)
qed

theorem user_info_forwarded_only_on_submission_witness:
  "\<exists>rq. sent (snd (delete_video demo_config (scripted [JObj []]) ''v1'' net0)) = [rq] \<and>
        out_headers rq = [(''Authorization'', ''Bearer sk-test'')]"
  using user_info_forwarded_only_on_submission [where c = demo_config and up = "scripted [JObj []]"
          and lim = 20 and after = None and st = net0 and vid = "''v1''" and u = demo_user and f = demo_form]
  by (simp add: demo_config_def unset_config_def cfg_api_key_def net0_def)

end
